theory Spec2Isabelle
  imports Complex_Main "HOL-Library.Word"
begin

unbundle bit_operations_syntax

section \<open>Stella: the SDL sound back end (SoundSDL.cxx)\<close>

text \<open>
  The development embeds the class \<open>SoundSDL\<close> and its nested clip player
  \<open>WavHandlerSDL\<close>. Conventions:
  \<^item> \<open>uInt32\<close> is \<open>32 word\<close>, \<open>Uint16\<close> is \<open>16 word\<close>; a C++ \<open>int\<close> is a HOL \<open>int\<close>
    together with an explicit range check where the source computes with it
    (signed overflow is undefined behaviour and is a failure of the model);
  \<^item> a finite \<open>float\<close> or \<open>double\<close> is the real number it denotes; every inexact
    floating-point operation is the exact operation followed by a rounding function
    (\<open>f32\<close> to binary32, \<open>f64\<close> to binary64) that the definitions take as a parameter;
  \<^item> a pointer that may be null is an \<open>option\<close>;
  \<^item> an exception or undefined behaviour is the left injection of a sum.
\<close>

subsection \<open>Failures\<close>

datatype failure =
    runtime_error string      \<comment> \<open>\<open>throw runtime_error(msg)\<close>\<close>
  | out_of_range              \<comment> \<open>\<open>std::vector::at\<close> with a bad index\<close>
  | null_dereference          \<comment> \<open>\<open>p->m\<close> with \<open>p\<close> null (undefined behaviour)\<close>
  | signed_overflow           \<comment> \<open>\<open>int\<close> arithmetic out of range (undefined behaviour)\<close>
  | float_conversion          \<comment> \<open>floating value not representable in the integer type (undefined behaviour)\<close>
  | out_of_bounds             \<comment> \<open>access outside a buffer (undefined behaviour)\<close>

type_synonym uInt32 = "32 word"
type_synonym byte = "8 word"

definition int_range :: "int \<Rightarrow> bool" where
  "int_range i = (- (2 ^ 31) \<le> i \<and> i < 2 ^ 31)"

subsection \<open>Collaborators that are not part of the file\<close>

text \<open>
  Modelled from the spec: \<open>BSPF::clamp\<close> is declared in \<open>bspf.hxx\<close>, which is missing.
  The spec speaks of values "clamped to [0,100]"; the definition is the usual one
  (the lower bound is tested first).
\<close>

definition BSPF_clamp :: "'a::linorder \<Rightarrow> 'a \<Rightarrow> 'a \<Rightarrow> 'a" where
  "BSPF_clamp val lower upper =
     (if val < lower then lower else if upper < val then upper else val)"

text \<open>
  The value of \<open>AudioSettings::resamplingQuality()\<close>. The enumeration is declared in
  \<open>AudioSettings.hxx\<close> (missing); the three enumerators are the ones that
  \<open>SoundSDL.cxx\<close> names. \<open>other_quality n\<close> stands for a value of the enumeration
  type that equals none of them (the \<open>default:\<close> label of a \<open>switch\<close>).
\<close>

datatype ResamplingQuality = nearestNeighbour | lanczos_2 | lanczos_3 | other_quality nat

text \<open>
  Modelled from the spec: the class \<open>AudioSettings\<close> is missing. The spec lists its
  configuration surface ("sample rate, fragment size, device selector, enabled flag,
  volume (0-100), resampling quality preset"); each getter that \<open>SoundSDL.cxx\<close> calls is
  a field, and \<open>AudioSettings::setVolume\<close> stores its argument in \<open>volume\<close>.
\<close>

record AudioSettings =
  sampleRate :: uInt32
  fragmentSize :: uInt32
  device :: uInt32
  enabled :: bool
  volume :: uInt32
  resamplingQuality :: ResamplingQuality

text \<open>
  Modelled from the spec: the class \<open>EmulationTiming\<close> is missing. The two getters
  that \<open>SoundSDL.cxx\<close> calls are fields ("prebuffer threshold (measured in fragments)",
  the emulation's "native sample rate").
\<close>

record EmulationTiming =
  prebufferFragmentCount :: uInt32
  audioSampleRate :: uInt32

text \<open>
  The operations of \<open>AudioQueue\<close> (class missing) that \<open>SoundSDL.cxx\<close> calls, as
  parameters: \<open>'q\<close> is the state of the queue object, \<open>'f\<close> a fragment handle
  (\<open>Int16*\<close>, \<open>None\<close> for \<open>nullptr\<close>). \<open>aq_dequeue q prev\<close> is the result of
  \<open>dequeue(prev)\<close> and the queue afterwards.
\<close>

record ('q, 'f) AudioQueue_ops =
  aq_size :: "'q \<Rightarrow> uInt32"
  aq_dequeue :: "'q \<Rightarrow> 'f option \<Rightarrow> 'f option \<times> 'q"
  aq_fragmentSize :: "'q \<Rightarrow> uInt32"
  aq_isStereo :: "'q \<Rightarrow> bool"
  aq_ignoreOverflows :: "'q \<Rightarrow> bool \<Rightarrow> 'q"

text \<open>\<open>SDL_AudioSpec\<close>, with the members the file reads or writes.\<close>

record SDL_AudioSpec =
  freq :: int
  format :: "16 word"
  channels :: byte
  silence :: byte
  samples :: "16 word"

definition SDL_zero :: SDL_AudioSpec where
  "SDL_zero = \<lparr>freq = 0, format = 0, channels = 0, silence = 0, samples = 0\<rparr>"

text \<open>\<open>Resampler::Format(sampleRate, fragmentSize, stereo)\<close>.\<close>

datatype Format = Format int uInt32 bool

text \<open>
  The resampler that \<open>initResampler\<close> constructs: which class, with which
  arguments. The pull callback is the same closure in all three cases and is the
  function \<open>nextFragmentCallback\<close> below.
\<close>

datatype Resampler =
    SimpleResampler Format Format
  | LanczosResampler Format Format nat

subsection \<open>The clip player's state\<close>

text \<open>
  A \<open>double\<close>: finite, or not (an infinity or a NaN; \<open>open\<close> divides by the
  emulation's sample rate).
\<close>

datatype double = Finite real | NotFinite

text \<open>
  The members of \<open>WavHandlerSDL\<close> that \<open>SoundSDL.cxx\<close> uses (the class is declared in
  \<open>SoundSDL.hxx\<close>, which is missing; the integer members are taken to be \<open>uInt32\<close>,
  the type of the values they are compared with). \<open>myBuffer\<close> is the decoded clip
  (\<open>None\<close> for \<open>nullptr\<close>), \<open>myPos\<close> the offset of the read pointer from the start of
  the buffer it was set against, \<open>myCvtBuffer\<close> the size of the scratch array (\<open>None\<close>
  for an empty \<open>unique_ptr\<close>). \<open>wavDevice\<close> is the member \<open>myDevice\<close> of the nested
  class, the SDL device id (0: none); \<open>SoundSDL\<close> has a member of the same name.
\<close>

record WavHandlerSDL =
  myFilename :: string
  myBuffer :: "byte list option"
  mySpec :: SDL_AudioSpec
  myLength :: uInt32
  myPos :: nat
  myRemaining :: uInt32
  wavDevice :: nat
  mySpeed :: double
  myCvtBuffer :: "nat option"
  myCvtBufferSize :: uInt32

subsection \<open>The state of SoundSDL\<close>

text \<open>
  \<open>myVolumeFactor\<close> is the static member of the class; \<open>myDevices\<close> is the list of
  device names that \<open>queryHardware\<close> built. The status text (\<open>myAboutString\<close>) is not
  part of the model.
\<close>

record ('q, 'f) SoundSDL =
  myAudioSettings :: AudioSettings
  myIsInitializedFlag :: bool
  myVolumeFactor :: real
  myDevice :: nat
  myDeviceId :: uInt32
  myDevices :: "string list"
  myHardwareSpec :: SDL_AudioSpec
  myAudioQueue :: "'q option"
  myEmulationTiming :: "EmulationTiming option"
  myCurrentFragment :: "'f option"
  myUnderrun :: bool
  myResampler :: "Resampler option"
  myWavHandler :: WavHandlerSDL

text \<open>\<open>float SoundSDL::myVolumeFactor = 0.F;\<close>\<close>

definition initial_myVolumeFactor :: real where
  "initial_myVolumeFactor = 0"

subsection \<open>Volume\<close>

text \<open>
  \<open>SoundSDL::setVolume\<close>. \<open>static_cast<float>(volume) / 100.F\<close>: both operands are
  exact, the quotient is rounded to binary32.
\<close>

definition setVolume ::
  "(real \<Rightarrow> real) \<Rightarrow> ('q, 'f) SoundSDL \<Rightarrow> uInt32 \<Rightarrow> ('q, 'f) SoundSDL" where
  "setVolume f32 self vol =
     (if myIsInitializedFlag self \<and> vol \<le> 100 then
        let settings = (myAudioSettings self)\<lparr>volume := vol\<rparr> in
        self\<lparr>myAudioSettings := settings,
             myVolumeFactor := (if enabled settings then f32 (real (unat vol) / 100) else 0)\<rparr>
      else self)"

text \<open>\<open>SoundSDL::mute\<close>.\<close>

definition mute ::
  "(real \<Rightarrow> real) \<Rightarrow> ('q, 'f) SoundSDL \<Rightarrow> bool \<Rightarrow> ('q, 'f) SoundSDL" where
  "mute f32 self enable =
     (if enable then self\<lparr>myVolumeFactor := 0\<rparr>
      else setVolume f32 self (volume (myAudioSettings self)))"

text \<open>
  \<open>SoundSDL::pause\<close> and \<open>WavHandlerSDL::pause\<close> only call into SDL
  (\<open>SDL_GetAudioDeviceStatus\<close>, \<open>SDL_PauseAudioDevice\<close>): no member of either class
  changes. The returned previous pause status is SDL's and is not modelled.
\<close>

definition pause :: "('q, 'f) SoundSDL \<Rightarrow> bool \<Rightarrow> ('q, 'f) SoundSDL" where
  "pause self enable = self"

text \<open>\<open>SoundSDL::setEnabled\<close>.\<close>

definition setEnabled ::
  "(real \<Rightarrow> real) \<Rightarrow> ('q, 'f) SoundSDL \<Rightarrow> bool \<Rightarrow> ('q, 'f) SoundSDL" where
  "setEnabled f32 self enable = pause (mute f32 self (\<not> enable)) (\<not> enable)"

text \<open>\<open>SoundSDL::toggleMute\<close> (the on-screen message belongs to the frame buffer).\<close>

definition toggleMute :: "(real \<Rightarrow> real) \<Rightarrow> ('q, 'f) SoundSDL \<Rightarrow> ('q, 'f) SoundSDL" where
  "toggleMute f32 self =
     (let wasMuted = (myVolumeFactor self = 0) in mute f32 self (\<not> wasMuted))"

text \<open>
  \<open>SoundSDL::adjustVolume\<close>. \<open>Int32 percent = myAudioSettings.volume()\<close> reads the
  unsigned value as a signed one; \<open>percent + direction * 2\<close> is \<open>int\<close> arithmetic.
  \<open>initializeAudio\<close> is \<open>Console::initializeAudio\<close> (class missing), a parameter.
  The gauge message belongs to the frame buffer.
\<close>

definition adjustVolume ::
  "(real \<Rightarrow> real) \<Rightarrow> (('q, 'f) SoundSDL \<Rightarrow> ('q, 'f) SoundSDL) \<Rightarrow>
   ('q, 'f) SoundSDL \<Rightarrow> int \<Rightarrow> failure + ('q, 'f) SoundSDL" where
  "adjustVolume f32 initializeAudio self direction =
     (let percent0 = sint (volume (myAudioSettings self)) in
      if \<not> int_range (direction * 2) \<or> \<not> int_range (percent0 + direction * 2)
      then Inl signed_overflow
      else
        let percent = BSPF_clamp (percent0 + direction * 2) 0 100;
            is_enabled = enabled (myAudioSettings self);
            self1 = (if percent > 0 \<and> direction \<noteq> 0 \<and> \<not> is_enabled
                     then initializeAudio (setEnabled f32 self True) else self)
        in Inr (setVolume f32 self1 (word_of_int percent)))"

subsection \<open>The pull callback of the resampler\<close>

text \<open>
  The closure \<open>nextFragmentCallback\<close> of \<open>SoundSDL::initResampler\<close>. It returns the
  fragment (or \<open>nullptr\<close>) and changes \<open>myUnderrun\<close>, \<open>myCurrentFragment\<close> and the
  queue behind \<open>myAudioQueue\<close>.
\<close>

definition nextFragmentCallback ::
  "('q, 'f) AudioQueue_ops \<Rightarrow> ('q, 'f) SoundSDL \<Rightarrow> failure + ('f option \<times> ('q, 'f) SoundSDL)" where
  "nextFragmentCallback Q self =
     (let pulled =
        (if myUnderrun self then
           (case (myAudioQueue self, myEmulationTiming self) of
              (Some q, Some t) \<Rightarrow>
                if prebufferFragmentCount t \<le> aq_size Q q
                then Inr (aq_dequeue Q q (myCurrentFragment self))
                else Inr (None, q)
            | _ \<Rightarrow> Inl null_dereference)
         else
           (case myAudioQueue self of
              Some q \<Rightarrow> Inr (aq_dequeue Q q (myCurrentFragment self))
            | None \<Rightarrow> Inl null_dereference))
      in case pulled of
           Inl e \<Rightarrow> Inl e
         | Inr (nextFragment, q') \<Rightarrow>
             let self1 = self\<lparr>myAudioQueue := Some q', myUnderrun := (nextFragment = None)\<rparr>;
                 self2 = (if nextFragment \<noteq> None
                          then self1\<lparr>myCurrentFragment := nextFragment\<rparr> else self1)
             in Inr (nextFragment, self2))"

subsection \<open>The resampler at work\<close>

text \<open>
  The classes \<open>SimpleResampler\<close> and \<open>LanczosResampler\<close> are missing. All that
  \<open>fillFragment\<close> can do to a \<open>SoundSDL\<close> is call the pull callback it was
  constructed with, any number of times, and then hand back the samples it wrote: a
  \<open>fill\<close> is such a behaviour (\<open>Pull k\<close>: call the callback and go on as \<open>k\<close> of
  its result; \<open>Done out\<close>: the samples written to the start of the buffer). The
  hidden state of the resampler and the requested length decide which behaviour it is.
\<close>

datatype ('f, 's) fill = Done "'s list" | Pull "'f option \<Rightarrow> ('f, 's) fill"

primrec fillFragment ::
  "('f, 's) fill \<Rightarrow> ('st \<Rightarrow> failure + ('f option \<times> 'st)) \<Rightarrow> 'st \<Rightarrow> failure + ('s list \<times> 'st)" where
  "fillFragment (Done out) = (\<lambda>nextFragment st. Inr (out, st))"
| "fillFragment (Pull k) = (\<lambda>nextFragment st.
     case nextFragment st of
       Inl e \<Rightarrow> Inl e
     | Inr (fragment, st') \<Rightarrow> fillFragment (k fragment) nextFragment st')"

subsection \<open>The device callback\<close>

text \<open>
  The buffer \<open>stream\<close> of \<open>len\<close> bytes: the whole 4-byte cells seen through
  \<open>reinterpret_cast<float*>(stream)\<close>, and the bytes after the last whole cell.
  \<open>len\<close> is its size in bytes. \<open>'s\<close> is the type of a float sample.
\<close>

record 's stream =
  cells :: "'s list"
  rest :: "byte list"

definition stream_len :: "'s stream \<Rightarrow> int" where
  "stream_len stream = int (4 * length (cells stream) + length (rest stream))"

text \<open>
  \<open>SDL_memset(stream, 0, len)\<close>: every byte of the buffer is 0; \<open>fzero\<close> is the
  float whose four bytes are 0.
\<close>

definition SDL_memset_0 :: "'s \<Rightarrow> 's stream \<Rightarrow> 's stream" where
  "SDL_memset_0 fzero stream =
     \<lparr>cells = replicate (length (cells stream)) fzero,
      rest = replicate (length (rest stream)) 0\<rparr>"

text \<open>
  \<open>for(uInt32 i = 0; i < length; ++i) s[i] *= SoundSDL::myVolumeFactor;\<close> where
  \<open>fmul x v\<close> is the float product of the sample \<open>x\<close> and the factor \<open>v\<close>.
\<close>

function scale_loop ::
  "('s \<Rightarrow> real \<Rightarrow> 's) \<Rightarrow> real \<Rightarrow> 's list \<Rightarrow> nat \<Rightarrow> nat \<Rightarrow> failure + 's list" where
  "scale_loop fmul v s i n =
     (if i < n then
        (if i < length s then scale_loop fmul v (s[i := fmul (s ! i) v]) (Suc i) n
         else Inl out_of_bounds)
      else Inr s)"
  by pat_completeness auto
termination
  by (relation "measure (\<lambda>(fmul, v, s, i, n). n - i)") auto

declare scale_loop.simps [simp del]

text \<open>
  \<open>SoundSDL::callback\<close>. \<open>behaviour\<close> is what \<open>myResampler->fillFragment(s, length)\<close>
  does in this call.
\<close>

definition callback ::
  "('q, 'f) AudioQueue_ops \<Rightarrow> ('f, 's) fill \<Rightarrow> ('s \<Rightarrow> real \<Rightarrow> 's) \<Rightarrow> 's \<Rightarrow>
   ('q, 'f) SoundSDL \<Rightarrow> 's stream \<Rightarrow> failure + (('q, 'f) SoundSDL \<times> 's stream)" where
  "callback Q behaviour fmul fzero self stream =
     (let len = stream_len stream in
      if myAudioQueue self \<noteq> None \<and> myResampler self \<noteq> None then
        let n = unat (word_of_int (drop_bit 2 len) :: uInt32) in
        case fillFragment behaviour (nextFragmentCallback Q) self of
          Inl e \<Rightarrow> Inl e
        | Inr (out, self') \<Rightarrow>
            if length (cells stream) < length out then Inl out_of_bounds
            else
              (case scale_loop fmul (myVolumeFactor self')
                      (out @ drop (length out) (cells stream)) 0 n of
                 Inl e \<Rightarrow> Inl e
               | Inr s \<Rightarrow> Inr (self', stream\<lparr>cells := s\<rparr>))
      else Inr (self, SDL_memset_0 fzero stream))"

subsection \<open>Constructing the resampler\<close>

text \<open>\<open>SoundSDL::initResampler\<close>.\<close>

definition initResampler ::
  "('q, 'f) AudioQueue_ops \<Rightarrow> ('q, 'f) SoundSDL \<Rightarrow> failure + ('q, 'f) SoundSDL" where
  "initResampler Q self =
     (case (myEmulationTiming self, myAudioQueue self) of
        (Some t, Some q) \<Rightarrow>
          let formatFrom = Format (uint (audioSampleRate t)) (aq_fragmentSize Q q) (aq_isStereo Q q);
              formatTo = Format (freq (myHardwareSpec self)) (ucast (samples (myHardwareSpec self)))
                                (1 < channels (myHardwareSpec self))
          in (case resamplingQuality (myAudioSettings self) of
                nearestNeighbour \<Rightarrow>
                  Inr (self\<lparr>myResampler := Some (SimpleResampler formatFrom formatTo)\<rparr>)
              | lanczos_2 \<Rightarrow>
                  Inr (self\<lparr>myResampler := Some (LanczosResampler formatFrom formatTo 2)\<rparr>)
              | lanczos_3 \<Rightarrow>
                  Inr (self\<lparr>myResampler := Some (LanczosResampler formatFrom formatTo 3)\<rparr>)
              | other_quality _ \<Rightarrow> Inl (runtime_error ''invalid resampling quality''))
      | _ \<Rightarrow> Inl null_dereference)"

subsection \<open>SDL\<close>

text \<open>
  What the SDL library answers, as parameters: \<open>LoadWAV name\<close> is the decoded file
  (its \<open>SDL_AudioSpec\<close> and its bytes) or \<open>None\<close> when \<open>SDL_LoadWAV\<close> returns
  \<open>nullptr\<close>; \<open>OpenAudioDevice name desired\<close> is the device id (0 on failure) and
  the spec SDL writes to \<open>obtained\<close>; \<open>len_mult src dst\<close> is \<open>cvt.len_mult\<close> after
  \<open>SDL_BuildAudioCVT\<close> from rate \<open>src\<close> to rate \<open>dst\<close>; \<open>len_cvt src dst n\<close> is
  \<open>cvt.len_cvt\<close> after \<open>SDL_ConvertAudio\<close> of \<open>n\<close> bytes.
\<close>

record SDL_lib =
  LoadWAV :: "string \<Rightarrow> (SDL_AudioSpec \<times> byte list) option"
  OpenAudioDevice :: "string option \<Rightarrow> SDL_AudioSpec \<Rightarrow> nat \<times> SDL_AudioSpec"
  len_mult :: "int \<Rightarrow> int \<Rightarrow> int"
  len_cvt :: "int \<Rightarrow> int \<Rightarrow> int \<Rightarrow> int"

text \<open>The calls into SDL that the clip player makes, in order.\<close>

datatype mix_source = from_clip nat | from_scratch

datatype sdl_call =
    SDL_FreeWAV
  | SDL_LoadWAV string
  | SDL_OpenAudioDevice "string option" SDL_AudioSpec
  | SDL_CloseAudioDevice nat
  | SDL_PauseAudioDevice nat bool
  | SDL_memset byte nat
  | SDL_BuildAudioCVT int int
  | SDL_memcpy nat int
  | SDL_ConvertAudio
  | SDL_MixAudioFormat mix_source int int

definition AUDIO_F32SYS :: "16 word" where
  "AUDIO_F32SYS = 0x8120"

subsection \<open>Opening the device and the pipeline\<close>

text \<open>
  \<open>SoundSDL::openDevice\<close>. \<open>myDevices.size() - 1\<close> is unsigned arithmetic (it wraps
  for an empty list); \<open>myDevices.at\<close> throws for a bad index.
\<close>

definition openDevice ::
  "SDL_lib \<Rightarrow> ('q, 'f) SoundSDL \<Rightarrow> failure + (bool \<times> ('q, 'f) SoundSDL)" where
  "openDevice sdl self =
     (let settings = myAudioSettings self;
          desired = \<lparr>freq = sint (sampleRate settings), format = AUDIO_F32SYS, channels = 2,
                     silence = 0, samples = ucast (fragmentSize settings)\<rparr>;
          deviceId = BSPF_clamp (device settings) 0
                       (word_of_int (int (length (myDevices self)) - 1));
          self1 = self\<lparr>myDeviceId := deviceId\<rparr>
      in if deviceId \<noteq> 0 \<and> length (myDevices self) \<le> unat deviceId then Inl out_of_range
         else
           let name = (if deviceId \<noteq> 0 then Some (myDevices self ! unat deviceId) else None);
               (dev, obtained) = OpenAudioDevice sdl name desired;
               self2 = self1\<lparr>myDevice := dev, myHardwareSpec := obtained\<rparr>
           in Inr (dev \<noteq> 0, self2\<lparr>myIsInitializedFlag := (dev \<noteq> 0)\<rparr>))"

text \<open>
  \<open>WavHandlerSDL::setSpeed\<close> is defined in \<open>SoundSDL.hxx\<close> (missing); it is taken
  to store its argument in \<open>mySpeed\<close>, the member that \<open>processWav\<close> reads.
\<close>

definition setSpeed :: "WavHandlerSDL \<Rightarrow> double \<Rightarrow> WavHandlerSDL" where
  "setSpeed wav speed = wav\<lparr>mySpeed := speed\<rparr>"

text \<open>
  \<open>SoundSDL::open\<close>. It returns the new state and the queue object, whose overflow
  mode it sets before it decides whether to attach it. Of \<open>about()\<close> only the access
  \<open>myDevices.at(myDeviceId)\<close> is modelled. \<open>262 * 60 * 2.\<close> is 31440.
\<close>

definition open_sound ::
  "SDL_lib \<Rightarrow> ('q, 'f) AudioQueue_ops \<Rightarrow> (real \<Rightarrow> real) \<Rightarrow> (real \<Rightarrow> real) \<Rightarrow>
   ('q, 'f) SoundSDL \<Rightarrow> 'q option \<Rightarrow> EmulationTiming option \<Rightarrow>
   failure + (('q, 'f) SoundSDL \<times> 'q)" where
  "open_sound sdl Q f32 f64 self audioQueue emulationTiming =
     (let settings = myAudioSettings self;
          hw = myHardwareSpec self;
          reopen = (sampleRate settings \<noteq> word_of_int (freq hw) \<or>
                    fragmentSize settings \<noteq> ucast (samples hw) \<or>
                    device settings \<noteq> myDeviceId self)
      in case (if reopen then map_sum id snd (openDevice sdl self) else Inr self) of
           Inl e \<Rightarrow> Inl e
         | Inr self1 \<Rightarrow>
             (case emulationTiming of
                None \<Rightarrow> Inl null_dereference
              | Some t \<Rightarrow>
                  let speed = (if audioSampleRate t = 0 then NotFinite
                               else Finite (f64 (31440 / real (unat (audioSampleRate t)))));
                      self2 = self1\<lparr>myEmulationTiming := emulationTiming,
                                    myWavHandler := setSpeed (myWavHandler self1) speed\<rparr>
                  in (case audioQueue of
                        None \<Rightarrow> Inl null_dereference
                      | Some q \<Rightarrow>
                          let q' = aq_ignoreOverflows Q q (\<not> enabled (myAudioSettings self2)) in
                          if \<not> enabled (myAudioSettings self2) then Inr (self2, q')
                          else
                            let self3 = self2\<lparr>myAudioQueue := Some q', myUnderrun := True,
                                              myCurrentFragment := None\<rparr>;
                                self4 = setVolume f32 self3 (volume (myAudioSettings self3))
                            in (case initResampler Q self4 of
                                  Inl e \<Rightarrow> Inl e
                                | Inr self5 \<Rightarrow>
                                    if length (myDevices self5) \<le> unat (myDeviceId self5)
                                    then Inl out_of_range
                                    else Inr (pause self5 False, q')))))"

subsection \<open>The clip player\<close>

text \<open>\<open>std::round\<close>: the nearest integer, halfway cases away from zero.\<close>

definition cround :: "real \<Rightarrow> int" where
  "cround x = (if 0 \<le> x then \<lfloor>x + 1 / 2\<rfloor> else \<lceil>x - 1 / 2\<rceil>)"

text \<open>Conversion of a floating value to an integer type: towards zero.\<close>

definition float_to_int :: "real \<Rightarrow> int" where
  "float_to_int x = (if 0 \<le> x then \<lfloor>x\<rfloor> else \<lceil>x\<rceil>)"

text \<open>
  \<open>WavHandlerSDL::play\<close>: the result, the new state and the calls into SDL.
  \<open>loadWAV\<close> is its first block (\<open>// Load WAV file\<close>); the first component of its
  result is false when the block returns false from \<open>play\<close>. When \<open>SDL_LoadWAV\<close>
  fails, what SDL leaves in \<open>mySpec\<close> and \<open>myLength\<close> is taken to be what was there
  before the call (the zeroed spec, the old length).
\<close>

definition loadWAV ::
  "SDL_lib \<Rightarrow> WavHandlerSDL \<Rightarrow> string \<Rightarrow> bool \<times> WavHandlerSDL \<times> sdl_call list" where
  "loadWAV sdl wav fileName =
     (if fileName \<noteq> myFilename wav \<or> myBuffer wav = None then
        let (wav0, calls0) =
              (if myBuffer wav \<noteq> None then (wav\<lparr>myBuffer := None\<rparr>, [SDL_FreeWAV])
               else (wav, []));
            wavz = wav0\<lparr>mySpec := SDL_zero\<rparr>
        in (case LoadWAV sdl fileName of
              None \<Rightarrow> (False, wavz, calls0 @ [SDL_LoadWAV fileName])
            | Some (spec, data) \<Rightarrow>
                (True,
                 wavz\<lparr>mySpec := spec, myBuffer := Some data,
                      myLength := word_of_nat (length data)\<rparr>,
                 calls0 @ [SDL_LoadWAV fileName]))
      else (True, wav, []))"

definition play ::
  "SDL_lib \<Rightarrow> WavHandlerSDL \<Rightarrow> string \<Rightarrow> string option \<Rightarrow> uInt32 \<Rightarrow> uInt32 \<Rightarrow>
   bool \<times> WavHandlerSDL \<times> sdl_call list" where
  "play sdl wav fileName dev position len =
     (let (loaded, wav1, calls1) = loadWAV sdl wav fileName
      in if \<not> loaded then (False, wav1, calls1)
         else if myLength wav1 < position then (False, wav1, calls1)
         else
           let wav2 = wav1\<lparr>myFilename := fileName,
                           myRemaining := (if len \<noteq> 0 then min len (myLength wav1 - position)
                                           else myLength wav1),
                           myPos := unat position\<rparr>
           in if wavDevice wav2 = 0 then
                let d = fst (OpenAudioDevice sdl dev (mySpec wav2));
                    calls2 = calls1 @ [SDL_OpenAudioDevice dev (mySpec wav2)]
                in if d = 0 then (False, wav2\<lparr>wavDevice := d\<rparr>, calls2)
                   else (True, wav2\<lparr>wavDevice := d\<rparr>, calls2 @ [SDL_PauseAudioDevice d False])
              else (True, wav2, calls1))"

text \<open>\<open>WavHandlerSDL::stop\<close>.\<close>

definition stop :: "WavHandlerSDL \<Rightarrow> WavHandlerSDL \<times> sdl_call list" where
  "stop wav =
     (let (wav1, calls1) =
        (if myBuffer wav \<noteq> None
         then (wav\<lparr>myRemaining := 0, wavDevice := 0, myBuffer := None\<rparr>,
               [SDL_CloseAudioDevice (wavDevice wav), SDL_FreeWAV])
         else (wav, []));
          wav2 = (if myCvtBuffer wav1 \<noteq> None
                  then wav1\<lparr>myCvtBuffer := None, myCvtBufferSize := 0\<rparr> else wav1)
      in (wav2, calls1))"

text \<open>
  A read of \<open>n\<close> bytes at \<open>myPos\<close> stays inside the decoded clip.
\<close>

definition readable :: "WavHandlerSDL \<Rightarrow> int \<Rightarrow> bool" where
  "readable wav n =
     (case myBuffer wav of
        None \<Rightarrow> False
      | Some data \<Rightarrow> 0 \<le> n \<and> int (myPos wav) + n \<le> int (length data))"

text \<open>
  In \<open>WavHandlerSDL::processWav\<close>: \<open>std::round(len / mySpeed)\<close>, a \<open>double\<close>
  division of the \<open>uInt32\<close> \<open>len\<close>, and
  \<open>std::round(static_cast<double>(mySpec.freq) * origLen / len)\<close>, a \<open>double\<close> product
  and a \<open>double\<close> division by the \<open>uInt32\<close> \<open>len\<close>.
\<close>

definition convertedLength :: "(real \<Rightarrow> real) \<Rightarrow> uInt32 \<Rightarrow> real \<Rightarrow> int" where
  "convertedLength f64 len speed = cround (f64 (real (unat len) / speed))"

definition recomputedFreq :: "(real \<Rightarrow> real) \<Rightarrow> int \<Rightarrow> int \<Rightarrow> uInt32 \<Rightarrow> int" where
  "recomputedFreq f64 originalFreq origLen len =
     cround (f64 (f64 (real_of_int originalFreq * real_of_int origLen) / real (unat len)))"

text \<open>
  \<open>WavHandlerSDL::processWav\<close>, for the static \<open>myVolumeFactor\<close> given: the new state
  and the calls into SDL (the mixing itself is SDL's). \<open>SDL_MIX_MAXVOLUME\<close> is 128.
  A division by zero gives an infinity or a NaN, whose conversion to an integer is
  undefined. \<open>SDL_assert(cvt.needed)\<close> is compiled out of release builds and is not
  modelled.
\<close>

definition processWav ::
  "SDL_lib \<Rightarrow> (real \<Rightarrow> real) \<Rightarrow> (real \<Rightarrow> real) \<Rightarrow> real \<Rightarrow> WavHandlerSDL \<Rightarrow> uInt32 \<Rightarrow>
   failure + (WavHandlerSDL \<times> sdl_call list)" where
  "processWav sdl f32 f64 volumeFactor wav len0 =
     (let spec = mySpec wav;
          start = [SDL_memset (silence spec) (unat len0)];
          mixvol = float_to_int (f32 (128 * volumeFactor))
      in
      if myRemaining wav = 0 then Inr (wav, start)
      else if mySpeed wav \<noteq> Finite 1 then
        (case mySpeed wav of
           NotFinite \<Rightarrow> Inl float_conversion
         | Finite speed \<Rightarrow>
             let origLen = sint len0 in
             if speed = 0 then Inl float_conversion
             else
               let converted = convertedLength f64 len0 speed in
               if converted < 0 \<or> 2 ^ 32 \<le> converted then Inl float_conversion
               else
                 let len1 = (word_of_int converted :: uInt32) in
                 if len1 = 0 then Inl float_conversion
                 else
                   let newFreq = recomputedFreq f64 (freq spec) origLen len1 in
                   if \<not> int_range newFreq then Inl float_conversion
                   else
                     let len = (if myRemaining wav < len1 then myRemaining wav else len1);
                         cvt_len = sint (len * ucast (channels spec));
                         need = cvt_len * len_mult sdl (freq spec) newFreq
                     in
                     if \<not> int_range need then Inl signed_overflow
                     else if \<not> readable wav cvt_len then Inl out_of_bounds
                     else if \<not> int_range mixvol then Inl float_conversion
                     else
                       let wav1 = (if myCvtBuffer wav = None \<or> uint (myCvtBufferSize wav) < need
                                   then wav\<lparr>myCvtBufferSize := word_of_int need,
                                            myCvtBuffer := Some (unat (word_of_int need :: uInt32))\<rparr>
                                   else wav)
                       in Inr (wav1\<lparr>myPos := myPos wav + unat len,
                                    myRemaining := myRemaining wav - len\<rparr>,
                               start @
                               [SDL_BuildAudioCVT (freq spec) newFreq,
                                SDL_memcpy (myPos wav) cvt_len,
                                SDL_ConvertAudio,
                                SDL_MixAudioFormat from_scratch
                                  (len_cvt sdl (freq spec) newFreq cvt_len) mixvol]))
      else
        let len = (if myRemaining wav < len0 then myRemaining wav else len0) in
        if \<not> readable wav (uint len) then Inl out_of_bounds
        else if \<not> int_range mixvol then Inl float_conversion
        else Inr (wav\<lparr>myPos := myPos wav + unat len, myRemaining := myRemaining wav - len\<rparr>,
                  start @ [SDL_MixAudioFormat (from_clip (myPos wav)) (uint len) mixvol]))"

text \<open>
  \<open>SoundSDL::playWav\<close> and \<open>SoundSDL::stopWav\<close>.
\<close>

definition playWav ::
  "SDL_lib \<Rightarrow> ('q, 'f) SoundSDL \<Rightarrow> string \<Rightarrow> uInt32 \<Rightarrow> uInt32 \<Rightarrow>
   failure + (bool \<times> ('q, 'f) SoundSDL \<times> sdl_call list)" where
  "playWav sdl self fileName position len =
     (if myDeviceId self \<noteq> 0 \<and> length (myDevices self) \<le> unat (myDeviceId self)
      then Inl out_of_range
      else
        let dev = (if myDeviceId self \<noteq> 0 then Some (myDevices self ! unat (myDeviceId self))
                   else None);
            (ok, wav, calls) = play sdl (myWavHandler self) fileName dev position len
        in Inr (ok, self\<lparr>myWavHandler := wav\<rparr>, calls))"

definition stopWav :: "('q, 'f) SoundSDL \<Rightarrow> ('q, 'f) SoundSDL \<times> sdl_call list" where
  "stopWav self = (let (wav, calls) = stop (myWavHandler self) in (self\<lparr>myWavHandler := wav\<rparr>, calls))"

subsection \<open>Sequences of calls\<close>

text \<open>
  The calls that reach a \<open>SoundSDL\<close> object: its public interface and the device
  callback. \<open>run\<close> performs a sequence of them and stops at the first failure.
\<close>

datatype ('q, 'f, 's) call =
    SetVolume uInt32
  | Mute bool
  | ToggleMute
  | SetEnabled bool
  | Pause bool
  | AdjustVolume int
  | Open "'q option" "EmulationTiming option"
  | Callback "('f, 's) fill" "'s stream"
  | PlayWav string uInt32 uInt32
  | StopWav

record ('q, 'f, 's) world =
  w_sdl :: SDL_lib
  w_queue :: "('q, 'f) AudioQueue_ops"
  w_f32 :: "real \<Rightarrow> real"
  w_f64 :: "real \<Rightarrow> real"
  w_initializeAudio :: "('q, 'f) SoundSDL \<Rightarrow> ('q, 'f) SoundSDL"
  w_fmul :: "'s \<Rightarrow> real \<Rightarrow> 's"
  w_fzero :: "'s"

fun exec ::
  "('q, 'f, 's) world \<Rightarrow> ('q, 'f, 's) call \<Rightarrow> ('q, 'f) SoundSDL \<Rightarrow> failure + ('q, 'f) SoundSDL" where
  "exec w (SetVolume v) self = Inr (setVolume (w_f32 w) self v)"
| "exec w (Mute b) self = Inr (mute (w_f32 w) self b)"
| "exec w ToggleMute self = Inr (toggleMute (w_f32 w) self)"
| "exec w (SetEnabled b) self = Inr (setEnabled (w_f32 w) self b)"
| "exec w (Pause b) self = Inr (pause self b)"
| "exec w (AdjustVolume d) self = adjustVolume (w_f32 w) (w_initializeAudio w) self d"
| "exec w (Open q t) self =
     map_sum id fst (open_sound (w_sdl w) (w_queue w) (w_f32 w) (w_f64 w) self q t)"
| "exec w (Callback behaviour stream) self =
     map_sum id fst (callback (w_queue w) behaviour (w_fmul w) (w_fzero w) self stream)"
| "exec w (PlayWav fileName position len) self =
     map_sum id (\<lambda>r. fst (snd r)) (playWav (w_sdl w) self fileName position len)"
| "exec w StopWav self = Inr (fst (stopWav self))"

fun run ::
  "('q, 'f, 's) world \<Rightarrow> ('q, 'f, 's) call list \<Rightarrow> ('q, 'f) SoundSDL \<Rightarrow> failure + ('q, 'f) SoundSDL" where
  "run w [] self = Inr self"
| "run w (c # cs) self = (case exec w c self of Inl e \<Rightarrow> Inl e | Inr self' \<Rightarrow> run w cs self')"

text \<open>The volume factor is a gain between 0 and 1.\<close>

definition volume_ok :: "('q, 'f) SoundSDL \<Rightarrow> bool" where
  "volume_ok self = (0 \<le> myVolumeFactor self \<and> myVolumeFactor self \<le> 1)"

text \<open>
  What is assumed of rounding to a floating-point format: it is monotone and leaves
  0 and 1, which the format contains, as they are.
\<close>

definition rounding :: "(real \<Rightarrow> real) \<Rightarrow> bool" where
  "rounding f = ((\<forall>x y. x \<le> y \<longrightarrow> f x \<le> f y) \<and> f 0 = 0 \<and> f 1 = 1)"

text \<open>
  Round-to-nearest in binary64 without overflow or underflow: the relative error is at
  most \<open>2 ^ - 53\<close>.
\<close>

definition nearest64 :: "(real \<Rightarrow> real) \<Rightarrow> bool" where
  "nearest64 f = (\<forall>x. \<bar>f x - x\<bar> \<le> \<bar>x\<bar> / 2 ^ 53)"

subsection \<open>Concrete objects\<close>

text \<open>No rounding error at all.\<close>

definition exact :: "real \<Rightarrow> real" where
  "exact x = x"

text \<open>
  Modelled from the spec: the class \<open>AudioQueue\<close> is missing. "Fragments are consumed
  strictly in enqueue order (FIFO)"; \<open>dequeue\<close> "returns empty immediately if nothing is
  available"; \<open>size\<close> is the "count of fragments ready". The queue is the list of its
  ready fragments, oldest first.
\<close>

definition fifo :: "('f list, 'f) AudioQueue_ops" where
  "fifo = \<lparr>aq_size = (\<lambda>q. word_of_nat (length q)),
           aq_dequeue = (\<lambda>q prev. case q of [] \<Rightarrow> (None, q) | f # fs \<Rightarrow> (Some f, fs)),
           aq_fragmentSize = (\<lambda>q. 512),
           aq_isStereo = (\<lambda>q. False),
           aq_ignoreOverflows = (\<lambda>q b. q)\<rparr>"

definition example_settings :: AudioSettings where
  "example_settings = \<lparr>sampleRate = 48000, fragmentSize = 512, device = 0, enabled = True,
                        volume = 40, resamplingQuality = lanczos_2\<rparr>"

definition example_spec :: SDL_AudioSpec where
  "example_spec = \<lparr>freq = 48000, format = AUDIO_F32SYS, channels = 2, silence = 0, samples = 512\<rparr>"

definition clip_spec :: SDL_AudioSpec where
  "clip_spec = \<lparr>freq = 44100, format = 8, channels = 1, silence = 128, samples = 4096\<rparr>"

definition idle_wav :: WavHandlerSDL where
  "idle_wav = \<lparr>myFilename = [], myBuffer = None, mySpec = SDL_zero, myLength = 0, myPos = 0,
               myRemaining = 0, wavDevice = 0, mySpeed = Finite 1, myCvtBuffer = None,
               myCvtBufferSize = 0\<rparr>"

definition example_timing :: EmulationTiming where
  "example_timing = \<lparr>prebufferFragmentCount = 3, audioSampleRate = 31400\<rparr>"

text \<open>
  An opened pipeline in the underrun state, with the fragments \<open>ready\<close> in the queue.
\<close>

definition example_sound :: "nat list \<Rightarrow> (nat list, nat) SoundSDL" where
  "example_sound ready =
     \<lparr>myAudioSettings = example_settings, myIsInitializedFlag = True, myVolumeFactor = 2 / 5,
      myDevice = 2, myDeviceId = 0, myDevices = [''Default''], myHardwareSpec = example_spec,
      myAudioQueue = Some ready, myEmulationTiming = Some example_timing,
      myCurrentFragment = None, myUnderrun = True,
      myResampler = Some (LanczosResampler (Format 31400 512 False) (Format 48000 512 True) 2),
      myWavHandler = idle_wav\<rparr>"

text \<open>An SDL that decodes one file, a clip of 2000 bytes, and opens device 7.\<close>

definition example_sdl :: SDL_lib where
  "example_sdl =
     \<lparr>LoadWAV = (\<lambda>name. if name = ''clip.wav'' then Some (clip_spec, replicate 2000 128) else None),
      OpenAudioDevice = (\<lambda>name desired. (7, desired)),
      len_mult = (\<lambda>src dst. 2),
      len_cvt = (\<lambda>src dst n. n)\<rparr>"

text \<open>The clip player while \<open>clip.wav\<close> plays: 1500 of 2000 bytes remain.\<close>

definition playing_wav :: WavHandlerSDL where
  "playing_wav = \<lparr>myFilename = ''clip.wav'', myBuffer = Some (replicate 2000 128),
                  mySpec = clip_spec, myLength = 2000, myPos = 500, myRemaining = 1500,
                  wavDevice = 7, mySpeed = Finite 1, myCvtBuffer = None, myCvtBufferSize = 0\<rparr>"

text \<open>
  A resampler that pulls one fragment and writes two samples; a buffer of 8 bytes;
  samples are reals and their products exact.
\<close>

definition example_fill :: "(nat, real) fill" where
  "example_fill = Pull (\<lambda>fragment. Done [case fragment of None \<Rightarrow> 0 | Some n \<Rightarrow> real n, 5])"

definition example_stream :: "real stream" where
  "example_stream = \<lparr>cells = [7, 7], rest = []\<rparr>"

text \<open>The same pipeline with a resampling quality that is none of the three.\<close>

definition bad_quality_sound :: "(nat list, nat) SoundSDL" where
  "bad_quality_sound =
     (example_sound [])\<lparr>myAudioSettings := example_settings\<lparr>resamplingQuality := other_quality 7\<rparr>\<rparr>"

text \<open>
  A world without rounding error in which \<open>Console::initializeAudio\<close> changes nothing,
  and a freshly constructed object (the volume factor has its initial value).
\<close>

definition example_world :: "(nat list, nat, real) world" where
  "example_world = \<lparr>w_sdl = example_sdl, w_queue = fifo, w_f32 = exact, w_f64 = exact,
                     w_initializeAudio = (\<lambda>self. self), w_fmul = (*), w_fzero = 0\<rparr>"

definition fresh_sound :: "(nat list, nat) SoundSDL" where
  "fresh_sound = (example_sound [])\<lparr>myVolumeFactor := initial_myVolumeFactor\<rparr>"


text \<open>The same clip played at speed 1.3.\<close>

definition fast_wav :: WavHandlerSDL where
  "fast_wav = playing_wav\<lparr>mySpeed := Finite (13 / 10)\<rparr>"

section \<open>Properties\<close>

subsection \<open>Machine integers\<close>

lemma clamp_word:
  assumes "0 \<le> p" "p \<le> 100"
  shows "(word_of_int p :: uInt32) \<le> 100" "uint (word_of_int p :: uInt32) = p"
proof -
  have u: "uint (word_of_int p :: uInt32) = p"
    using assms by (simp add: uint_word_of_int take_bit_int_eq_self)
  show "uint (word_of_int p :: uInt32) = p" by (rule u)
  show "(word_of_int p :: uInt32) \<le> 100"
    using assms u by (simp add: word_le_def)
qed

lemma sint_small:
  fixes v :: uInt32
  assumes "uint v < 2 ^ 31"
  shows "sint v = uint v"
proof -
  have "signed_take_bit 31 (uint v) = uint v"
  proof (rule signed_take_bit_int_eq_self)
    have "- (2 ^ 31) \<le> (0 :: int)" by simp
    also have "0 \<le> uint v" by simp
    finally show "- (2 ^ 31) \<le> uint v" .
    show "uint v < 2 ^ 31" by (rule assms)
  qed
  then show ?thesis by (simp add: sint_uint)
qed

lemma sint_le_100: "(v :: uInt32) \<le> 100 \<Longrightarrow> sint v = uint v"
  by (rule sint_small) (simp add: word_le_def)

subsection \<open>setVolume\<close>

lemma setVolume_stored:
  "myIsInitializedFlag self \<Longrightarrow> vol \<le> 100 \<Longrightarrow>
   volume (myAudioSettings (setVolume f32 self vol)) = vol"
  by (simp add: setVolume_def Let_def)

lemma setVolume_ignored:
  "\<not> myIsInitializedFlag self \<or> 100 < vol \<Longrightarrow> setVolume f32 self vol = self"
  by (auto simp: setVolume_def)

text \<open>
  C6, as the code has it. \<open>setVolume\<close> does not clamp. A call with a value above 100,
  or on a device that is not initialized, is ignored: the stored volume and the volume
  factor stay as they were. A call with a value \<open>v \<le> 100\<close> on an initialized device
  stores \<open>v\<close> and sets the factor to \<open>v / 100\<close> (rounded to \<open>float\<close>) when audio is
  enabled and to 0 otherwise. So \<open>setVolume\<close> never takes a stored volume out of
  [0,100], and \<open>setVolume(100)\<close> with audio enabled gives the factor 1.
\<close>

theorem setVolume_accepts_only_range:
  "(100 < vol \<or> \<not> myIsInitializedFlag self \<longrightarrow> setVolume f32 self vol = self) \<and>
   (myIsInitializedFlag self \<and> vol \<le> 100 \<longrightarrow>
      volume (myAudioSettings (setVolume f32 self vol)) = vol \<and>
      myVolumeFactor (setVolume f32 self vol) =
        (if enabled (myAudioSettings self) then f32 (real (unat vol) / 100) else 0)) \<and>
   (volume (myAudioSettings self) \<le> 100 \<longrightarrow>
      volume (myAudioSettings (setVolume f32 self vol)) \<le> 100) \<and>
   (f32 1 = 1 \<and> myIsInitializedFlag self \<and> enabled (myAudioSettings self) \<longrightarrow>
      myVolumeFactor (setVolume f32 self 100) = 1)"
  by (auto simp: setVolume_def Let_def)

theorem setVolume_accepts_only_range_witness:
  "setVolume exact (example_sound []) 150 = example_sound [] \<and>
   volume (myAudioSettings (setVolume exact (example_sound []) 100)) = 100 \<and>
   myVolumeFactor (setVolume exact (example_sound []) 100) = 1 \<and>
   myVolumeFactor (setVolume exact (example_sound []) 55) = 11 / 20"
  using setVolume_accepts_only_range [of 150 "example_sound []" exact]
    setVolume_accepts_only_range [of 100 "example_sound []" exact]
    setVolume_accepts_only_range [of 55 "example_sound []" exact]
  by (simp add: example_sound_def example_settings_def exact_def)

text \<open>
  C6 as the spec states it fails: with a stored volume of 40, \<open>setVolume(150)\<close> leaves
  the stored volume at 40 and the factor at 0.4; nothing is clamped to 100.
\<close>

theorem setVolume_clamp_counterexample:
  "(100 :: uInt32) < 150 \<and>
   volume (myAudioSettings (setVolume exact (example_sound []) 150)) = 40 \<and>
   volume (myAudioSettings (setVolume exact (example_sound []) 150)) \<noteq> 100 \<and>
   myVolumeFactor (setVolume exact (example_sound []) 150) \<noteq> 1"
  by (simp add: setVolume_def example_sound_def example_settings_def)

subsection \<open>adjustVolume\<close>

text \<open>
  C7. Let the stored volume \<open>v\<close> be in [0,100], let \<open>direction * 2\<close> and
  \<open>v + direction * 2\<close> be representable \<open>int\<close>s, and let \<open>p\<close> be \<open>v + direction * 2\<close>
  clamped to [0,100]. On an initialized device with audio enabled,
  \<open>adjustVolume(direction)\<close> makes \<open>p\<close> the stored volume: the volume changes by
  exactly \<open>direction * 2\<close> where that stays in [0,100]. With audio disabled, \<open>p > 0\<close>
  and \<open>direction \<noteq> 0\<close> the call first enables audio and runs
  \<open>Console::initializeAudio\<close>; it stores \<open>p\<close> when the device is initialized after
  that. On a device that is not initialized the call is a no-op, as every operation
  is.
\<close>

theorem adjustVolume_stores_clamped:
  fixes self :: "('q, 'f) SoundSDL" and f32 :: "real \<Rightarrow> real"
    and initializeAudio :: "('q, 'f) SoundSDL \<Rightarrow> ('q, 'f) SoundSDL" and direction :: int
  assumes v: "volume (myAudioSettings self) \<le> 100"
    and r1: "int_range (direction * 2)"
    and r2: "int_range (uint (volume (myAudioSettings self)) + direction * 2)"
  defines "p \<equiv> max 0 (min 100 (uint (volume (myAudioSettings self)) + direction * 2))"
  defines "pre \<equiv> (if 0 < p \<and> direction \<noteq> 0 \<and> \<not> enabled (myAudioSettings self)
                   then initializeAudio (setEnabled f32 self True) else self)"
  shows "\<exists>self'. adjustVolume f32 initializeAudio self direction = Inr self' \<and>
           (myIsInitializedFlag self \<and> enabled (myAudioSettings self) \<longrightarrow>
              uint (volume (myAudioSettings self')) = p \<and>
              (0 \<le> uint (volume (myAudioSettings self)) + direction * 2 \<and>
               uint (volume (myAudioSettings self)) + direction * 2 \<le> 100 \<longrightarrow>
                 uint (volume (myAudioSettings self')) =
                   uint (volume (myAudioSettings self)) + direction * 2)) \<and>
           (myIsInitializedFlag pre \<longrightarrow> uint (volume (myAudioSettings self')) = p) \<and>
           (\<not> myIsInitializedFlag pre \<longrightarrow> self' = pre)"
proof -
  have s: "sint (volume (myAudioSettings self)) = uint (volume (myAudioSettings self))"
    using v by (rule sint_le_100)
  have c: "BSPF_clamp (uint (volume (myAudioSettings self)) + direction * 2) 0 100 = p"
    by (simp add: BSPF_clamp_def max_def min_def p_def)
  have p: "0 \<le> p" "p \<le> 100" by (simp_all add: p_def)
  note w = clamp_word [OF p]
  have eq: "adjustVolume f32 initializeAudio self direction =
              Inr (setVolume f32 pre (word_of_int p))"
    using r1 r2 unfolding adjustVolume_def Let_def s c pre_def by simp
  have a: "myIsInitializedFlag pre \<Longrightarrow>
             uint (volume (myAudioSettings (setVolume f32 pre (word_of_int p)))) = p"
    using w by (simp add: setVolume_stored)
  have b: "\<not> myIsInitializedFlag pre \<Longrightarrow> setVolume f32 pre (word_of_int p) = pre"
    by (simp add: setVolume_ignored)
  have e: "enabled (myAudioSettings self) \<Longrightarrow> pre = self"
    by (simp add: pre_def)
  have x: "0 \<le> uint (volume (myAudioSettings self)) + direction * 2 \<and>
           uint (volume (myAudioSettings self)) + direction * 2 \<le> 100 \<longrightarrow>
           p = uint (volume (myAudioSettings self)) + direction * 2"
    by (simp add: p_def)
  show ?thesis using eq a b e x by auto
qed

theorem adjustVolume_stores_clamped_witness:
  "(\<exists>self'. adjustVolume exact id (example_sound []) 3 = Inr self' \<and>
            uint (volume (myAudioSettings self')) = 46) \<and>
   (\<exists>self'. adjustVolume exact id (example_sound []) 40 = Inr self' \<and>
            uint (volume (myAudioSettings self')) = 100)"
  using adjustVolume_stores_clamped [where self = "example_sound []" and direction = 3
      and initializeAudio = id and ?f32.0 = exact]
    adjustVolume_stores_clamped [where self = "example_sound []" and direction = 40
      and initializeAudio = id and ?f32.0 = exact]
  by (simp add: example_sound_def example_settings_def int_range_def)

text \<open>
  On a device that is not initialized \<open>adjustVolume\<close> changes nothing (a device that
  failed to open leaves every operation a no-op until it is opened again).
\<close>

lemma adjustVolume_uninitialized_noop:
  "adjustVolume exact id ((example_sound [])\<lparr>myIsInitializedFlag := False\<rparr>) 1 =
     Inr ((example_sound [])\<lparr>myIsInitializedFlag := False\<rparr>)"
  by (simp add: adjustVolume_def setVolume_def example_sound_def example_settings_def
      int_range_def BSPF_clamp_def)

subsection \<open>The pull callback\<close>

text \<open>
  With the queue attached (and, in the underrun state, the timing object), the
  callback returns: its result and its effect in closed form.
\<close>

lemma nextFragmentCallback_eq:
  fixes self :: "('q, 'f) SoundSDL" and Q :: "('q, 'f) AudioQueue_ops"
  assumes q: "myAudioQueue self = Some q"
    and t: "myUnderrun self \<longrightarrow> myEmulationTiming self = Some t"
  defines "wait \<equiv> myUnderrun self \<and> aq_size Q q < prebufferFragmentCount t"
  defines "pulled \<equiv> (if wait then (None, q) else aq_dequeue Q q (myCurrentFragment self))"
  shows "nextFragmentCallback Q self =
           Inr (fst pulled,
                self\<lparr>myAudioQueue := Some (snd pulled),
                     myUnderrun := (fst pulled = None),
                     myCurrentFragment :=
                       (if fst pulled = None then myCurrentFragment self else fst pulled)\<rparr>)"
proof (cases "myUnderrun self")
  case True
  then have t': "myEmulationTiming self = Some t" using t by simp
  show ?thesis
    using True q t'
    by (cases "aq_dequeue Q q (myCurrentFragment self)";
        cases "aq_size Q q < prebufferFragmentCount t")
       (simp_all add: nextFragmentCallback_def Let_def pulled_def wait_def not_less [symmetric])
next
  case False
  then show ?thesis
    using q
    by (cases "aq_dequeue Q q (myCurrentFragment self)")
       (simp add: nextFragmentCallback_def Let_def pulled_def wait_def)
qed

text \<open>
  C1. In every call of the pull callback (queue attached): in the underrun state it
  dequeues only when the size of the queue is at least the prebuffer fragment count,
  and otherwise returns empty and leaves the queue as it is; outside the underrun
  state it dequeues once, whatever the size; afterwards the underrun flag is set
  exactly when the call returned empty.
\<close>

theorem nextFragmentCallback_underrun_policy:
  fixes self :: "('q, 'f) SoundSDL" and Q :: "('q, 'f) AudioQueue_ops"
  assumes q: "myAudioQueue self = Some q"
    and t: "myUnderrun self \<longrightarrow> myEmulationTiming self = Some t"
  shows "\<exists>fragment self'.
     nextFragmentCallback Q self = Inr (fragment, self') \<and>
     (myUnderrun self \<and> aq_size Q q < prebufferFragmentCount t \<longrightarrow>
        fragment = None \<and> myAudioQueue self' = Some q) \<and>
     (myUnderrun self \<and> prebufferFragmentCount t \<le> aq_size Q q \<longrightarrow>
        (fragment, myAudioQueue self') =
          (fst (aq_dequeue Q q (myCurrentFragment self)),
           Some (snd (aq_dequeue Q q (myCurrentFragment self))))) \<and>
     (\<not> myUnderrun self \<longrightarrow>
        (fragment, myAudioQueue self') =
          (fst (aq_dequeue Q q (myCurrentFragment self)),
           Some (snd (aq_dequeue Q q (myCurrentFragment self))))) \<and>
     (myUnderrun self' \<longleftrightarrow> fragment = None)"
  unfolding nextFragmentCallback_eq [OF q t]
  by (simp add: not_less [symmetric])

text \<open>
  With a prebuffer count of 3: after an underrun a queue of depth 2 is left alone,
  a queue of depth 3 gives its oldest fragment and ends the underrun; outside the
  underrun state an empty queue gives nothing and starts an underrun.
\<close>

theorem nextFragmentCallback_underrun_policy_witness:
  "nextFragmentCallback fifo (example_sound [1, 2]) = Inr (None, example_sound [1, 2]) \<and>
   (\<exists>self'. nextFragmentCallback fifo (example_sound [1, 2, 3]) = Inr (Some 1, self') \<and>
            myAudioQueue self' = Some [2, 3] \<and> \<not> myUnderrun self') \<and>
   (\<exists>self'. nextFragmentCallback fifo ((example_sound [])\<lparr>myUnderrun := False\<rparr>) =
              Inr (None, self') \<and> myUnderrun self')"
  using
    nextFragmentCallback_underrun_policy
      [of "example_sound [1, 2]" "[1, 2]" example_timing fifo]
    nextFragmentCallback_underrun_policy
      [of "example_sound [1, 2, 3]" "[1, 2, 3]" example_timing fifo]
    nextFragmentCallback_underrun_policy
      [of "(example_sound [])\<lparr>myUnderrun := False\<rparr>" "[]" example_timing fifo]
  by (simp add: nextFragmentCallback_def example_sound_def example_timing_def fifo_def)

text \<open>
  C10. A call of the pull callback that returns empty leaves \<open>myCurrentFragment\<close>
  as it was; a call that returns a fragment makes it the current one.
\<close>

theorem nextFragmentCallback_keeps_current_fragment:
  fixes self :: "('q, 'f) SoundSDL" and Q :: "('q, 'f) AudioQueue_ops"
  assumes q: "myAudioQueue self = Some q"
    and t: "myUnderrun self \<longrightarrow> myEmulationTiming self = Some t"
  shows "\<exists>fragment self'.
     nextFragmentCallback Q self = Inr (fragment, self') \<and>
     (fragment = None \<longrightarrow> myCurrentFragment self' = myCurrentFragment self) \<and>
     (fragment \<noteq> None \<longrightarrow> myCurrentFragment self' = fragment)"
  unfolding nextFragmentCallback_eq [OF q t]
  by simp

theorem nextFragmentCallback_keeps_current_fragment_witness:
  "(\<exists>self'. nextFragmentCallback fifo ((example_sound [1, 2])\<lparr>myCurrentFragment := Some 9\<rparr>) =
              Inr (None, self') \<and> myCurrentFragment self' = Some 9) \<and>
   (\<exists>self'. nextFragmentCallback fifo ((example_sound [1, 2, 3])\<lparr>myCurrentFragment := Some 9\<rparr>) =
              Inr (Some 1, self') \<and> myCurrentFragment self' = Some 1)"
  using
    nextFragmentCallback_keeps_current_fragment
      [of "(example_sound [1, 2])\<lparr>myCurrentFragment := Some 9\<rparr>" "[1, 2]" example_timing fifo]
    nextFragmentCallback_keeps_current_fragment
      [of "(example_sound [1, 2, 3])\<lparr>myCurrentFragment := Some 9\<rparr>" "[1, 2, 3]"
        example_timing fifo]
  by (simp add: nextFragmentCallback_def example_sound_def example_timing_def fifo_def)

subsection \<open>The device callback\<close>

lemma nextFragmentCallback_volume:
  "nextFragmentCallback Q self = Inr (fragment, self') \<Longrightarrow>
   myVolumeFactor self' = myVolumeFactor self"
  by (auto simp: nextFragmentCallback_def Let_def
           split: if_splits option.splits sum.splits prod.splits)

lemma fillFragment_volume:
  "fillFragment behaviour (nextFragmentCallback Q) self = Inr (out, self') \<Longrightarrow>
   myVolumeFactor self' = myVolumeFactor self"
proof (induction behaviour arbitrary: self)
  case (Done xs)
  then show ?case by simp
next
  case (Pull k)
  from Pull.prems obtain fragment self1 where
    n: "nextFragmentCallback Q self = Inr (fragment, self1)" and
    f: "fillFragment (k fragment) (nextFragmentCallback Q) self1 = Inr (out, self')"
    by (auto split: sum.splits)
  have "myVolumeFactor self' = myVolumeFactor self1"
    using Pull.IH [OF rangeI f] .
  also have "\<dots> = myVolumeFactor self"
    using n by (rule nextFragmentCallback_volume)
  finally show ?case .
qed

text \<open>The loop scales the cells with index below \<open>n\<close> and no other.\<close>

lemma scale_loop_eq:
  "i \<le> n \<Longrightarrow> n \<le> length s \<Longrightarrow>
   scale_loop fmul v s i n =
     Inr (take i s @ map (\<lambda>x. fmul x v) (take (n - i) (drop i s)) @ drop n s)"
proof (induction fmul v s i n rule: scale_loop.induct)
  case (1 fmul v s i n)
  show ?case
  proof (cases "i < n")
    case True
    then have il: "i < length s" using "1.prems" by simp
    have ih: "scale_loop fmul v (s[i := fmul (s ! i) v]) (Suc i) n =
      Inr (take (Suc i) (s[i := fmul (s ! i) v]) @
           map (\<lambda>x. fmul x v) (take (n - Suc i) (drop (Suc i) (s[i := fmul (s ! i) v]))) @
           drop n (s[i := fmul (s ! i) v]))"
      using "1.IH" [OF True il] True "1.prems" by simp
    have a: "take (Suc i) (s[i := fmul (s ! i) v]) = take i s @ [fmul (s ! i) v]"
      using il by (simp add: take_Suc_conv_app_nth)
    have b: "drop (Suc i) (s[i := fmul (s ! i) v]) = drop (Suc i) s" by simp
    have c: "drop n (s[i := fmul (s ! i) v]) = drop n s" using True by simp
    have d: "take (n - i) (drop i s) = s ! i # take (n - Suc i) (drop (Suc i) s)"
      using True il by (metis Cons_nth_drop_Suc Suc_diff_Suc take_Suc_Cons)
    show ?thesis
      using True il by (subst scale_loop.simps) (simp add: ih a b c d)
  next
    case False
    then have "i = n" using "1.prems" by simp
    then show ?thesis by (subst scale_loop.simps) simp
  qed
qed

lemma scale_loop_all:
  "n \<le> length s \<Longrightarrow>
   scale_loop fmul v s 0 n = Inr (map (\<lambda>x. fmul x v) (take n s) @ drop n s)"
  using scale_loop_eq [of 0 n s fmul v] by simp

lemma samples_count:
  assumes "length (rest stream) < 4" "stream_len stream < 2 ^ 31"
  shows "unat (word_of_int (drop_bit 2 (stream_len stream)) :: uInt32) = length (cells stream)"
    and "int (length (cells stream)) = stream_len stream div 4"
proof -
  have d: "drop_bit 2 (stream_len stream) = int (length (cells stream))"
    using assms(1) by (simp add: stream_len_def drop_bit_eq_div)
  have "length (cells stream) < 2 ^ 32"
    using assms(2) by (simp add: stream_len_def)
  then have "unat (word_of_nat (length (cells stream)) :: uInt32) = length (cells stream)"
    by (simp add: unat_of_nat)
  then have "unat (word_of_int (int (length (cells stream))) :: uInt32) = length (cells stream)"
    by simp
  then show "unat (word_of_int (drop_bit 2 (stream_len stream)) :: uInt32) = length (cells stream)"
    by (simp add: d)
  show "int (length (cells stream)) = stream_len stream div 4"
    using d by (simp add: drop_bit_eq_div)
qed

lemma nextFragmentCallback_returns:
  fixes self :: "('q, 'f) SoundSDL"
  assumes "myAudioQueue self \<noteq> None" "myEmulationTiming self \<noteq> None"
  shows "\<exists>fragment self'. nextFragmentCallback Q self = Inr (fragment, self') \<and>
           myAudioQueue self' \<noteq> None \<and> myEmulationTiming self' \<noteq> None"
proof -
  from assms obtain q t where q: "myAudioQueue self = Some q"
    and t: "myEmulationTiming self = Some t" by auto
  from t have t': "myUnderrun self \<longrightarrow> myEmulationTiming self = Some t" by simp
  show ?thesis
    unfolding nextFragmentCallback_eq [OF q t'] using t by simp
qed

lemma fillFragment_returns:
  fixes self :: "('q, 'f) SoundSDL"
  shows "myAudioQueue self \<noteq> None \<Longrightarrow> myEmulationTiming self \<noteq> None \<Longrightarrow>
   \<exists>out self'. fillFragment behaviour (nextFragmentCallback Q) self = Inr (out, self')"
proof (induction behaviour arbitrary: self)
  case (Done xs)
  show ?case by simp
next
  case (Pull k)
  from nextFragmentCallback_returns [OF Pull.prems, of Q]
  obtain fragment self1 where
    n: "nextFragmentCallback Q self = Inr (fragment, self1)"
    and q: "myAudioQueue self1 \<noteq> None" and t: "myEmulationTiming self1 \<noteq> None"
    by blast
  from Pull.IH [OF rangeI q t, of fragment] n show ?case by simp
qed

text \<open>
  C2. For a buffer of \<open>len\<close> bytes (a C \<open>int\<close>; the cells and fewer than four bytes
  after them): without a queue or without a resampler every byte of the buffer
  becomes 0; with both, \<open>fillFragment\<close> runs first and is asked for \<open>len / 4\<close>
  samples, and the buffer then holds each sample it wrote multiplied by the volume
  factor.
\<close>

theorem callback_silence_or_scaled:
  fixes self :: "('q, 'f) SoundSDL" and stream :: "'s stream"
  assumes wf: "length (rest stream) < 4" and len: "stream_len stream < 2 ^ 31"
  shows
   "(myAudioQueue self = None \<or> myResampler self = None \<longrightarrow>
       callback Q behaviour fmul fzero self stream =
         Inr (self, \<lparr>cells = replicate (length (cells stream)) fzero,
                     rest = replicate (length (rest stream)) 0\<rparr>)) \<and>
    (myAudioQueue self \<noteq> None \<and> myResampler self \<noteq> None \<and> myEmulationTiming self \<noteq> None \<longrightarrow>
       (\<exists>out self'.
          fillFragment behaviour (nextFragmentCallback Q) self = Inr (out, self') \<and>
          int (length (cells stream)) = stream_len stream div 4 \<and>
          (length out = length (cells stream) \<longrightarrow>
             callback Q behaviour fmul fzero self stream =
               Inr (self', stream\<lparr>cells := map (\<lambda>x. fmul x (myVolumeFactor self)) out\<rparr>))))"
proof (intro conjI impI)
  assume "myAudioQueue self = None \<or> myResampler self = None"
  then show "callback Q behaviour fmul fzero self stream =
         Inr (self, \<lparr>cells = replicate (length (cells stream)) fzero,
                     rest = replicate (length (rest stream)) 0\<rparr>)"
    by (auto simp: callback_def SDL_memset_0_def Let_def)
next
  assume a: "myAudioQueue self \<noteq> None \<and> myResampler self \<noteq> None \<and> myEmulationTiming self \<noteq> None"
  then obtain out self' where
    f: "fillFragment behaviour (nextFragmentCallback Q) self = Inr (out, self')"
    using fillFragment_returns [of self behaviour Q] by blast
  have v: "myVolumeFactor self' = myVolumeFactor self"
    using f by (rule fillFragment_volume)
  note n = samples_count [OF wf len]
  have "callback Q behaviour fmul fzero self stream =
          Inr (self', stream\<lparr>cells := map (\<lambda>x. fmul x (myVolumeFactor self)) out\<rparr>)"
    if l: "length out = length (cells stream)"
  proof -
    have "scale_loop fmul (myVolumeFactor self) (out @ drop (length out) (cells stream)) 0
            (length (cells stream)) = Inr (map (\<lambda>x. fmul x (myVolumeFactor self)) out)"
      using scale_loop_all [of "length (cells stream)" "out @ drop (length out) (cells stream)"
          fmul "myVolumeFactor self"] l by simp
    then show ?thesis
      using a f l by (simp add: callback_def Let_def n(1) v)
  qed
  then show "\<exists>out self'.
          fillFragment behaviour (nextFragmentCallback Q) self = Inr (out, self') \<and>
          int (length (cells stream)) = stream_len stream div 4 \<and>
          (length out = length (cells stream) \<longrightarrow>
             callback Q behaviour fmul fzero self stream =
               Inr (self', stream\<lparr>cells := map (\<lambda>x. fmul x (myVolumeFactor self)) out\<rparr>))"
    using f n(2) by blast
qed

theorem callback_silence_or_scaled_witness:
  "(\<exists>self'. callback fifo example_fill (*) 0 (example_sound [1, 2, 3]) example_stream =
              Inr (self', \<lparr>cells = [2 / 5, 2], rest = []\<rparr>)) \<and>
   callback fifo example_fill (*) 0 ((example_sound [1, 2, 3])\<lparr>myResampler := None\<rparr>)
       example_stream =
     Inr ((example_sound [1, 2, 3])\<lparr>myResampler := None\<rparr>, \<lparr>cells = [0, 0], rest = []\<rparr>)"
  using
    callback_silence_or_scaled
      [of example_stream "example_sound [1, 2, 3]" fifo example_fill "(*)" 0]
    callback_silence_or_scaled
      [of example_stream "(example_sound [1, 2, 3])\<lparr>myResampler := None\<rparr>" fifo
        example_fill "(*)" 0]
  by (simp add: example_stream_def example_fill_def example_sound_def stream_len_def
       nextFragmentCallback_def fifo_def example_timing_def)

subsection \<open>Opening the pipeline\<close>

lemma openDevice_settings:
  "openDevice sdl self = Inr (b, self1) \<Longrightarrow>
   myAudioSettings self1 = myAudioSettings self \<and> myVolumeFactor self1 = myVolumeFactor self \<and>
   myDevices self1 = myDevices self"
  by (auto simp: openDevice_def Let_def split: if_splits prod.splits)

lemma openDevice_failure:
  "openDevice sdl self = Inl e \<Longrightarrow> e = out_of_range"
  by (auto simp: openDevice_def Let_def split: if_splits prod.splits)

lemma initResampler_other:
  "resamplingQuality (myAudioSettings self) = other_quality n \<Longrightarrow>
   myEmulationTiming self \<noteq> None \<Longrightarrow> myAudioQueue self \<noteq> None \<Longrightarrow>
   initResampler Q self = Inl (runtime_error ''invalid resampling quality'')"
  by (auto simp: initResampler_def Let_def)

lemma setVolume_settings:
  "resamplingQuality (myAudioSettings (setVolume f32 self v)) = resamplingQuality (myAudioSettings self)"
  "myEmulationTiming (setVolume f32 self v) = myEmulationTiming self"
  "myAudioQueue (setVolume f32 self v) = myAudioQueue self"
  by (simp_all add: setVolume_def Let_def)

lemma open_sound_other:
  fixes self :: "('q, 'f) SoundSDL"
  assumes o: "resamplingQuality (myAudioSettings self) = other_quality n"
    and e: "enabled (myAudioSettings self)"
  shows "open_sound sdl Q f32 f64 self (Some q) (Some t) =
           Inl (runtime_error ''invalid resampling quality'') \<or>
         open_sound sdl Q f32 f64 self (Some q) (Some t) = Inl out_of_range"
proof -
  define reopen where "reopen \<longleftrightarrow> (sampleRate (myAudioSettings self) \<noteq> word_of_int (freq (myHardwareSpec self)) \<or>
                    fragmentSize (myAudioSettings self) \<noteq> ucast (samples (myHardwareSpec self)) \<or>
                    device (myAudioSettings self) \<noteq> myDeviceId self)"
  define first where "first = (if reopen then map_sum id snd (openDevice sdl self) else Inr self)"
  show ?thesis
  proof (cases first)
    case (Inl err)
    then have "err = out_of_range"
      by (cases "openDevice sdl self")
         (auto simp: first_def split: if_splits dest: openDevice_failure)
    then show ?thesis using Inl
      unfolding open_sound_def Let_def first_def reopen_def by simp
  next
    case (Inr self1)
    then have s: "myAudioSettings self1 = myAudioSettings self"
      by (cases "openDevice sdl self")
         (auto simp: first_def split: if_splits dest: openDevice_settings)
    show ?thesis
      using Inr e o
      unfolding open_sound_def Let_def first_def reopen_def 
      by (simp add: s setVolume_settings initResampler_other)
  qed
qed

lemma clamp_upper:
  fixes d u :: uInt32
  shows "unat (BSPF_clamp d 0 u) \<le> unat u"
proof -
  have "BSPF_clamp d 0 u \<le> u"
    by (simp add: BSPF_clamp_def not_less)
  then show ?thesis by (simp only: word_le_nat_alt)
qed

lemma last_index:
  assumes "xs \<noteq> []" "length xs < 2 ^ 32"
  shows "unat (word_of_int (int (length xs) - 1) :: uInt32) = length xs - 1"
proof -
  have e: "int (length xs) - 1 = int (length xs - 1)"
    using assms(1) by (cases xs) simp_all
  have "(word_of_int (int (length xs - 1)) :: uInt32) = word_of_nat (length xs - 1)"
    by simp
  moreover have "length xs - 1 < 2 ^ 32" using assms(2) by simp
  ultimately have "unat (word_of_int (int (length xs - 1)) :: uInt32) = length xs - 1"
    by (simp add: unat_of_nat)
  then show ?thesis by (simp only: e)
qed

lemma openDevice_returns:
  fixes self :: "('q, 'f) SoundSDL"
  assumes "myDevices self \<noteq> []" "length (myDevices self) < 2 ^ 32"
  shows "\<exists>b self1. openDevice sdl self = Inr (b, self1)"
proof -
  let ?id = "BSPF_clamp (device (myAudioSettings self)) 0
               (word_of_int (int (length (myDevices self)) - 1) :: uInt32)"
  have "unat ?id \<le> length (myDevices self) - 1"
    using clamp_upper [of "device (myAudioSettings self)"
        "word_of_int (int (length (myDevices self)) - 1)"] last_index [OF assms]
    by simp
  then have "unat ?id < length (myDevices self)"
    using assms(1) by (cases "myDevices self") simp_all
  then show ?thesis
    by (simp add: openDevice_def Let_def split: prod.splits)
qed

lemma open_sound_other_exact:
  fixes self :: "('q, 'f) SoundSDL"
  assumes o: "resamplingQuality (myAudioSettings self) = other_quality n"
    and e: "enabled (myAudioSettings self)"
    and d: "myDevices self \<noteq> []" "length (myDevices self) < 2 ^ 32"
  shows "open_sound sdl Q f32 f64 self (Some q) (Some t) =
           Inl (runtime_error ''invalid resampling quality'')"
proof -
  from openDevice_returns [OF d, of sdl] obtain b self0 where
    od: "openDevice sdl self = Inr (b, self0)" by blast
  have s0: "myAudioSettings self0 = myAudioSettings self"
    using openDevice_settings [OF od] by simp
  define self1 where "self1 = (if sampleRate (myAudioSettings self) \<noteq> word_of_int (freq (myHardwareSpec self)) \<or>
                    fragmentSize (myAudioSettings self) \<noteq> ucast (samples (myHardwareSpec self)) \<or>
                    device (myAudioSettings self) \<noteq> myDeviceId self then self0 else self)"
  have s: "myAudioSettings self1 = myAudioSettings self"
    by (simp add: self1_def s0)
  have f: "(if sampleRate (myAudioSettings self) \<noteq> word_of_int (freq (myHardwareSpec self)) \<or>
                    fragmentSize (myAudioSettings self) \<noteq> ucast (samples (myHardwareSpec self)) \<or>
                    device (myAudioSettings self) \<noteq> myDeviceId self
            then map_sum id snd (openDevice sdl self) else Inr self) = Inr self1"
    by (simp add: self1_def od)
  show ?thesis
    unfolding open_sound_def Let_def f using e o
    by (simp add: s setVolume_settings initResampler_other)
qed


lemma nextFragmentCallback_failure:
  "nextFragmentCallback Q self = Inl e \<Longrightarrow> e = null_dereference"
  by (auto simp: nextFragmentCallback_def Let_def
           split: if_splits option.splits sum.splits prod.splits)

lemma fillFragment_failure:
  "fillFragment behaviour (nextFragmentCallback Q) self = Inl e \<Longrightarrow> e = null_dereference"
proof (induction behaviour arbitrary: self)
  case (Done xs)
  then show ?case by simp
next
  case (Pull k)
  show ?case
  proof (cases "nextFragmentCallback Q self")
    case (Inl e')
    then show ?thesis using Pull.prems nextFragmentCallback_failure [OF Inl] by simp
  next
    case (Inr r)
    then show ?thesis
      using Pull.prems Pull.IH [OF rangeI, of "fst r" "snd r"]
      by (cases r) simp
  qed
qed

lemma scale_loop_failure:
  "scale_loop fmul v s i n = Inl e \<Longrightarrow> e = out_of_bounds"
proof (induction fmul v s i n rule: scale_loop.induct)
  case (1 fmul v s i n)
  then show ?case
    by (subst (asm) (2) scale_loop.simps) (auto split: if_splits)
qed

lemma callback_failure:
  assumes "callback Q behaviour fmul fzero self stream = Inl e"
  shows "e = null_dereference \<or> e = out_of_bounds"
proof (cases "myAudioQueue self \<noteq> None \<and> myResampler self \<noteq> None")
  case False
  then show ?thesis using assms by (auto simp: callback_def Let_def)
next
  case True
  show ?thesis
  proof (cases "fillFragment behaviour (nextFragmentCallback Q) self")
    case (Inl e')
    then have "e' = null_dereference" by (rule fillFragment_failure)
    then show ?thesis using assms True Inl by (simp add: callback_def Let_def)
  next
    case (Inr r)
    obtain out self' where r: "r = (out, self')" by (cases r)
    show ?thesis
    proof (cases "length (cells stream) < length out")
      case True
      then show ?thesis using assms \<open>myAudioQueue self \<noteq> None \<and> myResampler self \<noteq> None\<close> Inr r
        by (simp add: callback_def Let_def)
    next
      case False
      let ?n = "unat (word_of_int (drop_bit 2 (stream_len stream)) :: uInt32)"
      let ?l = "scale_loop fmul (myVolumeFactor self') (out @ drop (length out) (cells stream)) 0 ?n"
      have "?l = Inl e"
        using assms \<open>myAudioQueue self \<noteq> None \<and> myResampler self \<noteq> None\<close> Inr r False
        by (cases ?l) (simp_all add: callback_def Let_def)
      then have "e = out_of_bounds" by (rule scale_loop_failure)
      then show ?thesis by simp
    qed
  qed
qed

text \<open>
  C8. With the queue and the timing object attached, \<open>initResampler\<close> constructs a
  \<open>SimpleResampler\<close> for \<open>nearestNeighbour\<close>, a \<open>LanczosResampler\<close> with parameter 2
  for \<open>lanczos_2\<close> and with parameter 3 for \<open>lanczos_3\<close>, and throws
  \<open>runtime_error("invalid resampling quality")\<close> for any other value. With audio
  enabled and a device list, \<open>open\<close> fails with that error. The device callback never
  fails with a \<open>runtime_error\<close>.
\<close>

theorem initResampler_quality_or_fatal:
  fixes self :: "('q, 'f) SoundSDL" and Q :: "('q, 'f) AudioQueue_ops"
  assumes t: "myEmulationTiming self = Some t" and q: "myAudioQueue self = Some q"
  defines "formatFrom \<equiv> Format (uint (audioSampleRate t)) (aq_fragmentSize Q q) (aq_isStereo Q q)"
  defines "formatTo \<equiv> Format (freq (myHardwareSpec self)) (ucast (samples (myHardwareSpec self)))
                         (1 < channels (myHardwareSpec self))"
  shows
   "(resamplingQuality (myAudioSettings self) = nearestNeighbour \<longrightarrow>
       initResampler Q self = Inr (self\<lparr>myResampler := Some (SimpleResampler formatFrom formatTo)\<rparr>)) \<and>
    (resamplingQuality (myAudioSettings self) = lanczos_2 \<longrightarrow>
       initResampler Q self = Inr (self\<lparr>myResampler := Some (LanczosResampler formatFrom formatTo 2)\<rparr>)) \<and>
    (resamplingQuality (myAudioSettings self) = lanczos_3 \<longrightarrow>
       initResampler Q self = Inr (self\<lparr>myResampler := Some (LanczosResampler formatFrom formatTo 3)\<rparr>)) \<and>
    (\<forall>n. resamplingQuality (myAudioSettings self) = other_quality n \<longrightarrow>
       initResampler Q self = Inl (runtime_error ''invalid resampling quality'') \<and>
       (enabled (myAudioSettings self) \<and> myDevices self \<noteq> [] \<and> length (myDevices self) < 2 ^ 32 \<longrightarrow>
          open_sound sdl Q f32 f64 self (Some q') (Some t') =
            Inl (runtime_error ''invalid resampling quality''))) \<and>
    (\<forall>m. callback Q behaviour fmul fzero self stream \<noteq> Inl (runtime_error m))"
proof -
  have a: "resamplingQuality (myAudioSettings self) = nearestNeighbour \<longrightarrow>
       initResampler Q self = Inr (self\<lparr>myResampler := Some (SimpleResampler formatFrom formatTo)\<rparr>)"
    using t q by (simp add: initResampler_def Let_def formatFrom_def formatTo_def)
  have b: "resamplingQuality (myAudioSettings self) = lanczos_2 \<longrightarrow>
       initResampler Q self = Inr (self\<lparr>myResampler := Some (LanczosResampler formatFrom formatTo 2)\<rparr>)"
    using t q by (simp add: initResampler_def Let_def formatFrom_def formatTo_def)
  have c: "resamplingQuality (myAudioSettings self) = lanczos_3 \<longrightarrow>
       initResampler Q self = Inr (self\<lparr>myResampler := Some (LanczosResampler formatFrom formatTo 3)\<rparr>)"
    using t q by (simp add: initResampler_def Let_def formatFrom_def formatTo_def)
  have d: "\<forall>n. resamplingQuality (myAudioSettings self) = other_quality n \<longrightarrow>
       initResampler Q self = Inl (runtime_error ''invalid resampling quality'') \<and>
       (enabled (myAudioSettings self) \<and> myDevices self \<noteq> [] \<and> length (myDevices self) < 2 ^ 32 \<longrightarrow>
          open_sound sdl Q f32 f64 self (Some q') (Some t') =
            Inl (runtime_error ''invalid resampling quality''))"
    using t q by (simp add: initResampler_other open_sound_other_exact)
  have e: "\<forall>m. callback Q behaviour fmul fzero self stream \<noteq> Inl (runtime_error m)"
    using callback_failure [of Q behaviour fmul fzero self stream] by auto
  show ?thesis using a b c d e by blast
qed

theorem initResampler_quality_or_fatal_witness:
  "initResampler fifo bad_quality_sound = Inl (runtime_error ''invalid resampling quality'') \<and>
   open_sound example_sdl fifo exact exact bad_quality_sound (Some [1]) (Some example_timing) =
     Inl (runtime_error ''invalid resampling quality'') \<and>
   initResampler fifo (example_sound []) =
     Inr ((example_sound [])\<lparr>myResampler :=
            Some (LanczosResampler (Format 31400 512 False) (Format 48000 512 True) 2)\<rparr>)"
  using
    initResampler_quality_or_fatal [where self = bad_quality_sound and t = example_timing and q = "[]" and Q = fifo
      and sdl = example_sdl and ?f32.0 = exact and ?f64.0 = exact and q' = "[1]"
      and t' = example_timing and behaviour = example_fill and fmul = "(*)" and fzero = 0
      and stream = example_stream]
    initResampler_quality_or_fatal [where self = "example_sound []" and t = example_timing and q = "[]" and Q = fifo
      and sdl = example_sdl and ?f32.0 = exact and ?f64.0 = exact and q' = "[1]"
      and t' = example_timing and behaviour = example_fill and fmul = "(*)" and fzero = 0
      and stream = example_stream]
  by (simp add: bad_quality_sound_def example_sound_def example_settings_def example_timing_def
      fifo_def example_spec_def)

subsection \<open>The volume factor\<close>

lemma setVolume_ok:
  assumes r: "rounding f32" and ok: "volume_ok self"
  shows "volume_ok (setVolume f32 self v)"
proof (cases "myIsInitializedFlag self \<and> v \<le> 100")
  case False
  then show ?thesis using ok by (auto simp: setVolume_def)
next
  case True
  then have u: "unat v \<le> 100" by (simp add: word_le_nat_alt)
  define x where "x = real (unat v)"
  have "0 \<le> x" unfolding x_def by (rule of_nat_0_le_iff)
  moreover have "x \<le> 100" unfolding x_def using u by (metis of_nat_le_iff of_nat_numeral)
  ultimately have b: "0 \<le> real (unat v) / 100" "real (unat v) / 100 \<le> 1"
    unfolding x_def [symmetric] by simp_all
  from r have m: "\<And>x y. x \<le> y \<Longrightarrow> f32 x \<le> f32 y" and z: "f32 0 = 0" and o: "f32 1 = 1"
    by (simp_all add: rounding_def)
  have "0 \<le> f32 (real (unat v) / 100)" using m [OF b(1)] z by simp
  moreover have "f32 (real (unat v) / 100) \<le> 1" using m [OF b(2)] o by simp
  ultimately show ?thesis
    using True by (simp add: setVolume_def Let_def volume_ok_def)
qed

lemma mute_ok: "rounding f32 \<Longrightarrow> volume_ok self \<Longrightarrow> volume_ok (mute f32 self b)"
  by (simp add: mute_def setVolume_ok) (simp add: volume_ok_def)

lemma pause_ok: "volume_ok self \<Longrightarrow> volume_ok (pause self b)"
  by (simp add: pause_def)

lemma setEnabled_ok: "rounding f32 \<Longrightarrow> volume_ok self \<Longrightarrow> volume_ok (setEnabled f32 self b)"
  by (simp add: setEnabled_def pause_ok mute_ok)

lemma toggleMute_ok: "rounding f32 \<Longrightarrow> volume_ok self \<Longrightarrow> volume_ok (toggleMute f32 self)"
  by (simp add: toggleMute_def Let_def mute_ok)

lemma adjustVolume_ok:
  assumes "rounding f32" "\<forall>s. volume_ok s \<longrightarrow> volume_ok (initializeAudio s)" "volume_ok self"
    "adjustVolume f32 initializeAudio self d = Inr self'"
  shows "volume_ok self'"
  using assms
  by (auto simp: adjustVolume_def Let_def setVolume_ok setEnabled_ok split: if_splits)

lemma volume_ok_cong: "myVolumeFactor a = myVolumeFactor b \<Longrightarrow> volume_ok a = volume_ok b"
  by (simp add: volume_ok_def)

lemma initResampler_volume:
  "initResampler Q self = Inr self' \<Longrightarrow> myVolumeFactor self' = myVolumeFactor self"
  by (auto simp: initResampler_def Let_def split: option.splits ResamplingQuality.splits)


lemma open_sound_ok:
  fixes self :: "('q, 'f) SoundSDL"
  assumes r: "rounding f32" and ok: "volume_ok self"
    and o: "open_sound sdl Q f32 f64 self audioQueue emulationTiming = Inr (self', q')"
  shows "volume_ok self'"
proof -
  define first where "first =
    (if sampleRate (myAudioSettings self) \<noteq> word_of_int (freq (myHardwareSpec self)) \<or>
        fragmentSize (myAudioSettings self) \<noteq> ucast (samples (myHardwareSpec self)) \<or>
        device (myAudioSettings self) \<noteq> myDeviceId self
     then map_sum id snd (openDevice sdl self) else Inr self)"
  from o obtain self1 where f: "first = Inr self1"
    unfolding open_sound_def Let_def first_def [symmetric] by (cases first) simp_all
  have "myVolumeFactor self1 = myVolumeFactor self"
    using f by (cases "openDevice sdl self")
      (auto simp: first_def split: if_splits dest: openDevice_settings)
  then have ok1: "volume_ok self1" using ok by (simp add: volume_ok_def)
  from o obtain t where t: "emulationTiming = Some t"
    unfolding open_sound_def Let_def first_def [symmetric] f by (cases emulationTiming) simp_all
  from o obtain q where q: "audioQueue = Some q"
    unfolding open_sound_def Let_def first_def [symmetric] f t by (cases audioQueue) simp_all
  have u1: "\<And>(s :: ('q, 'f) SoundSDL) a b. volume_ok (s\<lparr>myEmulationTiming := a, myWavHandler := b\<rparr>) = volume_ok s"
    by (simp add: volume_ok_def)
  have u2: "\<And>(s :: ('q, 'f) SoundSDL) a b c.
      volume_ok (s\<lparr>myAudioQueue := a, myUnderrun := b, myCurrentFragment := c\<rparr>) = volume_ok s"
    by (simp add: volume_ok_def)
  have u3: "\<And>(s :: ('q, 'f) SoundSDL) s'. initResampler Q s = Inr s' \<Longrightarrow> volume_ok s' = volume_ok s"
    by (simp add: volume_ok_def initResampler_volume)
  have u4: "\<And>(s :: ('q, 'f) SoundSDL) v. volume_ok s \<Longrightarrow> volume_ok (setVolume f32 s v)"
    by (rule setVolume_ok [OF r])
  from o show ?thesis
    unfolding open_sound_def Let_def first_def [symmetric] f t q
    using ok1
    by (auto split: if_splits sum.splits simp: u1 u2 u4 pause_def dest!: u3)
qed

lemma callback_ok:
  assumes ok: "volume_ok self"
    and c: "callback Q behaviour fmul fzero self stream = Inr (self', stream')"
  shows "volume_ok self'"
proof (cases "myAudioQueue self \<noteq> None \<and> myResampler self \<noteq> None")
  case False
  then show ?thesis using c ok by (auto simp: callback_def Let_def)
next
  case True
  then obtain out self1 where f: "fillFragment behaviour (nextFragmentCallback Q) self = Inr (out, self1)"
    using c by (cases "fillFragment behaviour (nextFragmentCallback Q) self")
      (auto simp: callback_def Let_def)
  have "self' = self1"
    using c True f by (auto simp: callback_def Let_def split: if_splits sum.splits)
  moreover have "myVolumeFactor self1 = myVolumeFactor self" using f by (rule fillFragment_volume)
  ultimately show ?thesis using ok by (simp add: volume_ok_def)
qed

lemma playWav_ok:
  "volume_ok self \<Longrightarrow> playWav sdl self fileName position len = Inr (b, self', calls) \<Longrightarrow>
   volume_ok self'"
  by (auto simp: playWav_def Let_def volume_ok_def split: if_splits prod.splits)

lemma stopWav_ok: "volume_ok self \<Longrightarrow> volume_ok (fst (stopWav self))"
  by (simp add: stopWav_def Let_def volume_ok_def split: prod.splits)

lemma exec_ok:
  assumes r: "rounding (w_f32 w)"
    and ia: "\<forall>s. volume_ok s \<longrightarrow> volume_ok (w_initializeAudio w s)"
    and ok: "volume_ok self" and e: "exec w c self = Inr self'"
  shows "volume_ok self'"
proof (cases c)
  case (SetVolume v)
  then show ?thesis using e setVolume_ok [OF r ok] by auto
next
  case (Mute b)
  then show ?thesis using e mute_ok [OF r ok] by auto
next
  case ToggleMute
  then show ?thesis using e toggleMute_ok [OF r ok] by auto
next
  case (SetEnabled b)
  then show ?thesis using e setEnabled_ok [OF r ok] by auto
next
  case (Pause b)
  then show ?thesis using e pause_ok [OF ok] by auto
next
  case (AdjustVolume d)
  then show ?thesis using e adjustVolume_ok [OF r ia ok] by auto
next
  case (Open q t)
  then obtain r' where "open_sound (w_sdl w) (w_queue w) (w_f32 w) (w_f64 w) self q t = Inr r'"
    and "self' = fst r'"
    using e by (cases "open_sound (w_sdl w) (w_queue w) (w_f32 w) (w_f64 w) self q t") auto
  then show ?thesis using open_sound_ok [OF r ok, of "w_sdl w" "w_queue w" "w_f64 w" q t self' "snd r'"]
    by (cases r') simp
next
  case (Callback behaviour stream)
  then obtain r' where "callback (w_queue w) behaviour (w_fmul w) (w_fzero w) self stream = Inr r'"
    and "self' = fst r'"
    using e by (cases "callback (w_queue w) behaviour (w_fmul w) (w_fzero w) self stream") auto
  then show ?thesis
    using callback_ok [OF ok, of "w_queue w" behaviour "w_fmul w" "w_fzero w" stream self' "snd r'"]
    by (cases r') simp
next
  case (PlayWav fileName position len)
  then obtain r' where "playWav (w_sdl w) self fileName position len = Inr r'"
    and "self' = fst (snd r')"
    using e by (cases "playWav (w_sdl w) self fileName position len") auto
  then show ?thesis
    using playWav_ok [OF ok, of "w_sdl w" fileName position len "fst r'" self' "snd (snd r')"]
    by (cases r') auto
next
  case StopWav
  then show ?thesis using e stopWav_ok [OF ok] by auto
qed

lemma run_ok:
  assumes r: "rounding (w_f32 w)"
    and ia: "\<forall>s. volume_ok s \<longrightarrow> volume_ok (w_initializeAudio w s)"
  shows "volume_ok self \<Longrightarrow> run w cs self = Inr self' \<Longrightarrow> volume_ok self'"
proof (induction cs arbitrary: self)
  case Nil
  then show ?case by simp
next
  case (Cons c cs)
  from Cons.prems(2) obtain self1 where e: "exec w c self = Inr self1"
    and r1: "run w cs self1 = Inr self'"
    by (cases "exec w c self") simp_all
  from exec_ok [OF r ia Cons.prems(1) e] have "volume_ok self1" .
  then show ?case using r1 by (rule Cons.IH)
qed

text \<open>
  C9. Let rounding to \<open>float\<close> be monotone and leave 0 and 1 as they are, and let
  \<open>Console::initializeAudio\<close>, which reaches the private static only through the
  calls below, keep the volume factor in [0,1]. The factor is 0 initially; every
  sequence of calls (\<open>setVolume\<close>, \<open>mute\<close>, \<open>toggleMute\<close>, \<open>setEnabled\<close>, \<open>pause\<close>,
  \<open>adjustVolume\<close>, \<open>open\<close>, the device callback, \<open>playWav\<close>, \<open>stopWav\<close>) that
  starts with the factor in [0,1] ends with it in [0,1]. \<open>mute(true)\<close> sets it to 0,
  and \<open>setVolume\<close> either changes nothing or sets it to 0 or to \<open>volume / 100\<close>
  with \<open>volume\<close> at most 100.
\<close>

theorem volume_factor_stays_in_unit_interval:
  fixes w :: "('q, 'f, 's) world" and self :: "('q, 'f) SoundSDL"
  assumes r: "rounding (w_f32 w)"
    and ia: "\<forall>s. volume_ok s \<longrightarrow> volume_ok (w_initializeAudio w s)"
  shows "(myVolumeFactor self = initial_myVolumeFactor \<longrightarrow> volume_ok self) \<and>
         (\<forall>cs self'. volume_ok self \<and> run w cs self = Inr self' \<longrightarrow> volume_ok self') \<and>
         myVolumeFactor (mute (w_f32 w) self True) = 0 \<and>
         (setVolume (w_f32 w) self v = self \<or>
          myVolumeFactor (setVolume (w_f32 w) self v) = 0 \<or>
          v \<le> 100 \<and> myVolumeFactor (setVolume (w_f32 w) self v) = w_f32 w (real (unat v) / 100))"
proof -
  have a: "myVolumeFactor self = initial_myVolumeFactor \<longrightarrow> volume_ok self"
    by (simp add: initial_myVolumeFactor_def volume_ok_def)
  have b: "\<forall>cs self'. volume_ok self \<and> run w cs self = Inr self' \<longrightarrow> volume_ok self'"
    using run_ok [OF r ia] by blast
  have c: "myVolumeFactor (mute (w_f32 w) self True) = 0"
    by (simp add: mute_def)
  have d: "setVolume (w_f32 w) self v = self \<or>
          myVolumeFactor (setVolume (w_f32 w) self v) = 0 \<or>
          v \<le> 100 \<and> myVolumeFactor (setVolume (w_f32 w) self v) = w_f32 w (real (unat v) / 100)"
    by (simp add: setVolume_def Let_def)
  show ?thesis using a b c d by blast
qed

theorem volume_factor_stays_in_unit_interval_witness:
  "rounding exact \<and> volume_ok fresh_sound \<and>
   (\<exists>self'. run example_world
              [SetVolume 150, AdjustVolume 40, ToggleMute, ToggleMute,
               Open (Some [1]) (Some example_timing), Callback example_fill example_stream]
              fresh_sound = Inr self' \<and>
            myVolumeFactor self' = 1 \<and> volume_ok self')"
proof -
  have r: "rounding (w_f32 example_world)"
    by (simp add: example_world_def rounding_def exact_def)
  have ia: "\<forall>s. volume_ok s \<longrightarrow> volume_ok (w_initializeAudio example_world s)"
    by (simp add: example_world_def)
  note t = volume_factor_stays_in_unit_interval [OF r ia, of fresh_sound 0]
  show ?thesis
    using t r
    by (simp add: example_world_def fresh_sound_def example_sound_def example_settings_def
       setVolume_def adjustVolume_def int_range_def BSPF_clamp_def toggleMute_def mute_def
       exact_def initial_myVolumeFactor_def setEnabled_def pause_def open_sound_def
       example_spec_def example_timing_def initResampler_def fifo_def setSpeed_def
       callback_def example_fill_def example_stream_def nextFragmentCallback_def
       stream_len_def scale_loop.simps volume_ok_def Let_def)
qed

subsection \<open>The clip player: play and stop\<close>



lemma play_not_loaded:
  "\<not> fst (loadWAV sdl wav fileName) \<Longrightarrow>
   play sdl wav fileName dev position len = loadWAV sdl wav fileName"
  by (cases "loadWAV sdl wav fileName") (simp add: play_def)



lemma loadWAV_fails:
  "myBuffer wav = None \<or> myFilename wav \<noteq> fileName \<Longrightarrow> LoadWAV sdl fileName = None \<Longrightarrow>
   loadWAV sdl wav fileName =
     (False, wav\<lparr>myBuffer := None, mySpec := SDL_zero\<rparr>,
      (if myBuffer wav \<noteq> None then [SDL_FreeWAV] else []) @ [SDL_LoadWAV fileName])"
  by (cases "myBuffer wav") (auto simp: loadWAV_def Let_def)







text \<open>
  A \<open>play\<close> that fails its offset check keeps the decoded buffer but has not
  recorded the name: the next \<open>play\<close> of that file releases the buffer and decodes
  again, with no \<open>stop\<close> in between.
\<close>

lemma play_offset_failure_decodes_again:
  "\<not> fst (play example_sdl idle_wav ''clip.wav'' None 2001 0) \<and>
   myBuffer (fst (snd (play example_sdl idle_wav ''clip.wav'' None 2001 0))) \<noteq> None \<and>
   snd (snd (play example_sdl (fst (snd (play example_sdl idle_wav ''clip.wav'' None 2001 0)))
               ''clip.wav'' None 0 0)) =
     [SDL_FreeWAV, SDL_LoadWAV ''clip.wav'', SDL_OpenAudioDevice None clip_spec,
      SDL_PauseAudioDevice 7 False]"
  by (simp add: play_def loadWAV_def example_sdl_def idle_wav_def clip_spec_def)




text \<open>
  A failed load, in general: the result is false; a buffer that was loaded has been
  released and \<open>mySpec\<close> zeroed; nothing else has changed, not the remaining count
  and not the device.
\<close>

lemma play_load_failure:
  assumes "myBuffer wav = None \<or> myFilename wav \<noteq> fileName" "LoadWAV sdl fileName = None"
  shows "play sdl wav fileName dev position len =
           (False, wav\<lparr>myBuffer := None, mySpec := SDL_zero\<rparr>,
            (if myBuffer wav \<noteq> None then [SDL_FreeWAV] else []) @ [SDL_LoadWAV fileName])"
  using loadWAV_fails [OF assms] play_not_loaded [of sdl wav fileName dev position len]
  by simp

text \<open>
  C5 at a concrete input. While \<open>clip.wav\<close> plays (1500 bytes remain, device 7 open),
  \<open>play("missing.wav")\<close> returns false after it has released the decoded buffer of
  \<open>clip.wav\<close> and zeroed \<open>mySpec\<close>; the remaining count is still 1500 and the device
  still open, so the next callback reads released memory.
\<close>

theorem play_failed_load_releases_playing_clip:
  "play example_sdl idle_wav ''clip.wav'' None 500 1500 =
     (True, playing_wav,
      [SDL_LoadWAV ''clip.wav'', SDL_OpenAudioDevice None clip_spec, SDL_PauseAudioDevice 7 False]) \<and>
   play example_sdl playing_wav ''missing.wav'' None 0 100 =
     (False, playing_wav\<lparr>myBuffer := None, mySpec := SDL_zero\<rparr>,
      [SDL_FreeWAV, SDL_LoadWAV ''missing.wav'']) \<and>
   myRemaining (playing_wav\<lparr>myBuffer := None, mySpec := SDL_zero\<rparr>) = 1500 \<and>
   wavDevice (playing_wav\<lparr>myBuffer := None, mySpec := SDL_zero\<rparr>) = 7 \<and>
   processWav example_sdl exact exact (2 / 5) (playing_wav\<lparr>myBuffer := None, mySpec := SDL_zero\<rparr>) 1000 =
     Inl out_of_bounds"
  by (simp add: play_def loadWAV_def example_sdl_def idle_wav_def playing_wav_def clip_spec_def
      processWav_def readable_def SDL_zero_def)

subsection \<open>The clip player: speed conversion\<close>

lemma converted_word:
  assumes "0 < c" "c < 2 ^ 32"
  shows "uint (word_of_int c :: uInt32) = c"
    and "(word_of_int c :: uInt32) \<noteq> 0"
    and "real (unat (word_of_int c :: uInt32)) = real_of_int c"
proof -
  show u: "uint (word_of_int c :: uInt32) = c"
    using assms by (simp add: uint_word_of_int take_bit_int_eq_self)
  show "(word_of_int c :: uInt32) \<noteq> 0"
  proof
    assume "(word_of_int c :: uInt32) = 0"
    then have "uint (word_of_int c :: uInt32) = 0" by simp
    then show False using u assms by simp
  qed
  have "unat (word_of_int c :: uInt32) = nat c"
    using u by (simp add: unat_eq_nat_uint)
  then show "real (unat (word_of_int c :: uInt32)) = real_of_int c"
    using assms by simp
qed

lemma processWav_converting:
  fixes wav :: WavHandlerSDL and len0 :: uInt32 and f32 f64 :: "real \<Rightarrow> real"
    and speed volumeFactor :: real and sdl :: SDL_lib
  assumes sp: "mySpeed wav = Finite speed" "speed \<noteq> 1" "speed \<noteq> 0"
    and rem: "myRemaining wav \<noteq> 0"
  defines "converted \<equiv> convertedLength f64 len0 speed"
  defines "newFreq \<equiv> recomputedFreq f64 (freq (mySpec wav)) (sint len0) (word_of_int converted)"
  defines "len \<equiv> (if myRemaining wav < word_of_int converted then myRemaining wav
                    else (word_of_int converted :: uInt32))"
  defines "cvt_len \<equiv> sint (len * ucast (channels (mySpec wav)))"
  defines "need \<equiv> cvt_len * len_mult sdl (freq (mySpec wav)) newFreq"
  assumes c: "0 < converted" "converted < 2 ^ 32"
    and nf: "int_range newFreq"
    and nd: "int_range need"
    and rd: "readable wav cvt_len"
    and mv: "int_range (float_to_int (f32 (128 * volumeFactor)))"
  shows "processWav sdl f32 f64 volumeFactor wav len0 =
     Inr ((if myCvtBuffer wav = None \<or> uint (myCvtBufferSize wav) < need
           then wav\<lparr>myCvtBufferSize := word_of_int need,
                    myCvtBuffer := Some (unat (word_of_int need :: uInt32))\<rparr>
           else wav)\<lparr>myPos := myPos wav + unat len, myRemaining := myRemaining wav - len\<rparr>,
          [SDL_memset (silence (mySpec wav)) (unat len0),
           SDL_BuildAudioCVT (freq (mySpec wav)) newFreq,
           SDL_memcpy (myPos wav) cvt_len,
           SDL_ConvertAudio,
           SDL_MixAudioFormat from_scratch
             (len_cvt sdl (freq (mySpec wav)) newFreq cvt_len) (float_to_int (f32 (128 * volumeFactor)))])"
proof -
  note w = converted_word [OF c]
  have c': "\<not> (converted < 0 \<or> 2 ^ 32 \<le> converted)" using c by simp
  have f: "convertedLength f64 len0 speed = converted"
    "recomputedFreq f64 (freq (mySpec wav)) (sint len0) (word_of_int converted) = newFreq"
    "(if myRemaining wav < word_of_int converted then myRemaining wav
      else (word_of_int converted :: uInt32)) = len"
    "sint (len * ucast (channels (mySpec wav))) = cvt_len"
    "cvt_len * len_mult sdl (freq (mySpec wav)) newFreq = need"
    by (simp_all only: converted_def newFreq_def len_def cvt_len_def need_def)
  have g: "\<not> converted < 0" "\<not> 2 ^ 32 \<le> converted" using c by simp_all
  show ?thesis
    unfolding processWav_def Let_def
    by (simp only: sp rem f g w(2) nf nd rd mv double.case double.inject if_True if_False
          not_False_eq_True not_True_eq_False simp_thms append.simps)
qed

lemma clamped_length:
  fixes remaining :: uInt32
  assumes c: "0 < c" "c < 2 ^ 32"
  defines "len \<equiv> (if remaining < word_of_int c then remaining else (word_of_int c :: uInt32))"
  shows "uint len = min c (uint remaining)"
    and "len = word_of_int (min c (uint remaining))"
    and "uint (remaining - len) = uint remaining - min c (uint remaining)"
    and "unat len = nat (min c (uint remaining))"
proof -
  note w = converted_word [OF c]
  show u: "uint len = min c (uint remaining)"
    by (simp add: len_def word_less_def w(1) min_def)
  have "word_of_int (uint len) = len" by simp
  then show "len = word_of_int (min c (uint remaining))" by (simp only: u)
  have "uint len \<le> uint remaining" by (simp add: u)
  then have "uint (remaining - len) = uint remaining - uint len"
    by (simp only: uint_sub_lem)
  then show "uint (remaining - len) = uint remaining - min c (uint remaining)"
    by (simp only: u)
  show "unat len = nat (min c (uint remaining))"
    using u by (simp only: unat_eq_nat_uint)
qed

lemma cround_769:
  assumes n: "nearest64 f64" and s: "\<bar>speed - 13 / 10\<bar> \<le> (13 / 10) / 2 ^ 53"
  shows "convertedLength f64 1000 speed = 769"
proof -
  have u: "(1 :: real) / 2 ^ 53 \<le> 1 / 1000000" by simp
  have "(13 / 10) / 2 ^ 53 = (13 / 10) * ((1 :: real) / 2 ^ 53)" by simp
  also have "\<dots> \<le> (13 / 10) * (1 / 1000000)"
    by (rule mult_left_mono [OF u]) simp
  finally have "\<bar>speed - 13 / 10\<bar> \<le> 13 / 10000000" using s by simp
  then have s1: "12999 / 10000 \<le> speed" and s2: "speed \<le> 13001 / 10000" by linarith+
  have sp: "0 < speed" using s1 by linarith
  define q where "q = 1000 / speed"
  have q1: "q \<le> 7693 / 10"
    unfolding q_def using sp s1 by (simp add: field_simps)
  have q2: "7691 / 10 \<le> q"
    unfolding q_def using sp s2 by (simp add: field_simps)
  have "\<bar>f64 q - q\<bar> \<le> \<bar>q\<bar> / 2 ^ 53" using n by (simp add: nearest64_def)
  also have "\<bar>q\<bar> / 2 ^ 53 = \<bar>q\<bar> * (1 / 2 ^ 53)" by simp
  also have "\<dots> \<le> \<bar>q\<bar> * (1 / 1000000)"
    by (rule mult_left_mono [OF u]) simp
  also have "\<dots> \<le> 1 / 1000" using q1 q2 by simp
  finally have e: "\<bar>f64 q - q\<bar> \<le> 1 / 1000" .
  have lo: "769 \<le> f64 q + 1 / 2" using e q2 by linarith
  have hi: "f64 q + 1 / 2 < 770" using e q1 by linarith
  have "\<lfloor>f64 q + 1 / 2\<rfloor> = 769"
    by (rule floor_unique) (use lo hi in simp_all)
  moreover have "0 \<le> f64 q" using e q2 by linarith
  moreover have "real (unat (1000 :: uInt32)) = 1000" by simp
  ultimately show ?thesis
    by (simp add: convertedLength_def cround_def q_def del: of_nat_unat)
qed

text \<open>With nothing remaining the callback only writes silence.\<close>

lemma processWav_nothing_remaining:
  "myRemaining wav = 0 \<Longrightarrow>
   processWav sdl f32 f64 volumeFactor wav len0 =
     Inr (wav, [SDL_memset (silence (mySpec wav)) (unat len0)])"
  by (simp add: processWav_def)

text \<open>
  C3. In a callback with frames remaining and a finite speed other than 1 (and the
  behaviour defined: the converted length positive and a \<open>uInt32\<close>, the recomputed
  rate and the scratch size \<open>int\<close>s, the read inside the clip), with
  \<open>converted = round(len / speed)\<close>: the rate conversion is built from the original
  rate to \<open>round(rate * len / converted)\<close>; \<open>min(converted, remaining)\<close> frames are
  copied from the read position; the remaining count goes down and the read position
  up by that number. With \<open>double\<close> arithmetic rounding to nearest, a speed of 1.3
  and a length of 1000 give \<open>converted = 769\<close>.
\<close>

theorem processWav_speed_conversion:
  fixes wav :: WavHandlerSDL and len0 :: uInt32 and f32 f64 :: "real \<Rightarrow> real"
    and speed volumeFactor :: real and sdl :: SDL_lib
  assumes sp: "mySpeed wav = Finite speed" "speed \<noteq> 1" "speed \<noteq> 0"
    and rem: "myRemaining wav \<noteq> 0"
  defines "converted \<equiv> cround (f64 (real (unat len0) / speed))"
  defines "newFreq \<equiv> cround (f64 (f64 (real_of_int (freq (mySpec wav)) * real_of_int (sint len0))
                                     / real_of_int converted))"
  defines "consumed \<equiv> min converted (uint (myRemaining wav))"
  defines "cvt_len \<equiv> sint ((word_of_int consumed :: uInt32) * ucast (channels (mySpec wav)))"
  assumes c: "0 < converted" "converted < 2 ^ 32"
    and nf: "int_range newFreq"
    and nd: "int_range (cvt_len * len_mult sdl (freq (mySpec wav)) newFreq)"
    and rd: "readable wav cvt_len"
    and mv: "int_range (float_to_int (f32 (128 * volumeFactor)))"
  shows "(\<exists>wav' calls.
            processWav sdl f32 f64 volumeFactor wav len0 = Inr (wav', calls) \<and>
            SDL_BuildAudioCVT (freq (mySpec wav)) newFreq \<in> set calls \<and>
            SDL_memcpy (myPos wav) cvt_len \<in> set calls \<and>
            uint (myRemaining wav') = uint (myRemaining wav) - consumed \<and>
            myPos wav' = myPos wav + nat consumed) \<and>
         (nearest64 f64 \<and> \<bar>speed - 13 / 10\<bar> \<le> (13 / 10) / 2 ^ 53 \<and> len0 = 1000 \<longrightarrow>
            converted = 769)"
proof -
  have cd: "convertedLength f64 len0 speed = converted"
    by (simp only: convertedLength_def converted_def)
  note w = converted_word [OF c]
  have nq: "recomputedFreq f64 (freq (mySpec wav)) (sint len0) (word_of_int converted) = newFreq"
    by (simp only: recomputedFreq_def newFreq_def w(3))
  define len where "len = (if myRemaining wav < word_of_int converted then myRemaining wav
                           else (word_of_int converted :: uInt32))"
  note l = clamped_length [OF c, of "myRemaining wav", folded len_def consumed_def]
  have cl: "sint (len * ucast (channels (mySpec wav))) = cvt_len"
    by (simp only: cvt_len_def l(2))
  note p = processWav_converting [of wav speed f64 len0 sdl f32 volumeFactor,
      unfolded cd nq, folded len_def, unfolded cl, OF sp rem c nf nd rd mv]
  have a: "\<exists>wav' calls.
            processWav sdl f32 f64 volumeFactor wav len0 = Inr (wav', calls) \<and>
            SDL_BuildAudioCVT (freq (mySpec wav)) newFreq \<in> set calls \<and>
            SDL_memcpy (myPos wav) cvt_len \<in> set calls \<and>
            uint (myRemaining wav') = uint (myRemaining wav) - consumed \<and>
            myPos wav' = myPos wav + nat consumed"
    unfolding p using l(3) l(4) by simp
  have b: "nearest64 f64 \<and> \<bar>speed - 13 / 10\<bar> \<le> (13 / 10) / 2 ^ 53 \<and> len0 = 1000 \<longrightarrow>
            converted = 769"
    using cround_769 [of f64 speed] cd by auto
  show ?thesis using a b by (rule conjI)
qed




theorem processWav_speed_conversion_witness:
  "convertedLength exact 1000 (13 / 10) = 769 \<and>
   (\<exists>wav'. processWav example_sdl exact exact (2 / 5) fast_wav 1000 =
      Inr (wav', [SDL_memset 128 1000, SDL_BuildAudioCVT 44100 57347, SDL_memcpy 500 769,
                  SDL_ConvertAudio, SDL_MixAudioFormat from_scratch 769 51]) \<and>
      myRemaining wav' = 731 \<and> myPos wav' = 1269)"
proof -
  have k: "cround (exact (real (unat (1000 :: uInt32)) / (13 / 10))) = 769"
    by (simp add: exact_def cround_def)
  have n: "cround (exact (exact (real_of_int (freq (mySpec fast_wav)) * real_of_int (sint (1000 :: uInt32))) /
                  real_of_int (cround (exact (real (unat (1000 :: uInt32)) / (13 / 10)))))) = 57347"
    unfolding k by (simp add: exact_def cround_def fast_wav_def playing_wav_def clip_spec_def)
  have m: "min (cround (exact (real (unat (1000 :: uInt32)) / (13 / 10)))) (uint (myRemaining fast_wav)) = 769"
    unfolding k by (simp add: fast_wav_def playing_wav_def)
  have t: "(\<exists>wav' calls.
            processWav example_sdl exact exact (2 / 5) fast_wav 1000 = Inr (wav', calls) \<and>
            SDL_BuildAudioCVT (freq (mySpec fast_wav)) 57347 \<in> set calls \<and>
            SDL_memcpy (myPos fast_wav) (sint ((word_of_int 769 :: uInt32) * ucast (channels (mySpec fast_wav)))) \<in> set calls \<and>
            uint (myRemaining wav') = uint (myRemaining fast_wav) - 769 \<and>
            myPos wav' = myPos fast_wav + nat 769) \<and>
         (nearest64 exact \<and> \<bar>(13 / 10 :: real) - 13 / 10\<bar> \<le> (13 / 10) / 2 ^ 53 \<and> (1000 :: uInt32) = 1000 \<longrightarrow>
            (769 :: int) = 769)"
    using processWav_speed_conversion [where wav = fast_wav and speed = "13 / 10" and ?len0.0 = 1000 and ?f64.0 = exact
      and ?f32.0 = exact and volumeFactor = "2 / 5" and sdl = example_sdl, unfolded n m k]
    by (simp add: fast_wav_def playing_wav_def example_sdl_def clip_spec_def exact_def
        float_to_int_def int_range_def readable_def cround_def)
  have e: "processWav example_sdl exact exact (2 / 5) fast_wav 1000 =
      Inr (fast_wav\<lparr>myCvtBufferSize := 1538, myCvtBuffer := Some 1538, myPos := 1269,
                    myRemaining := 731\<rparr>,
           [SDL_memset 128 1000, SDL_BuildAudioCVT 44100 57347, SDL_memcpy 500 769,
            SDL_ConvertAudio, SDL_MixAudioFormat from_scratch 769 51])"
    by (simp add: processWav_def fast_wav_def playing_wav_def example_sdl_def clip_spec_def
        convertedLength_def recomputedFreq_def exact_def cround_def float_to_int_def
        int_range_def readable_def)
  have "convertedLength exact 1000 (13 / 10) = 769"
    using k by (simp only: convertedLength_def)
  then show ?thesis using t e by simp
qed

end
